theory Spec2Isabelle
  imports Main "HOL-Library.Sublist"
begin

section \<open>MSL utils: track correlation and request encoding\<close>

text \<open>
  A shallow embedding of \<^verbatim>\<open>resources/lib/services/nfsession/msl/msl_utils.py\<close>.
  Python dictionaries with a fixed set of keys are records, Python exceptions are values
  on the left of a sum, and the collaborators that live outside the module (the language
  converter, the session table, the user interface) are parameters of the functions that
  call them. A string is a list of characters, one character per code point below 256.
\<close>

subsection \<open>Exceptions\<close>

text \<open>
  The exceptions the module can raise by itself: the \<^verbatim>\<open>KeyError\<close> of a failed lookup in
  \<^verbatim>\<open>AUDIO_CHANNELS_CONV\<close> (it carries the key), the \<^verbatim>\<open>ValueError\<close> of \<^verbatim>\<open>max\<close> on an
  empty sequence, and the plain \<^verbatim>\<open>Exception\<close> with its message.
\<close>

datatype error = KeyError int | ValueError | Exception string

subsection \<open>Player state and manifest\<close>

record currentaudiostream =
  language :: string
  channels :: int

record currentvideostream =
  codec :: string
  width :: int
  height :: int

record player_state =
  currentaudiostream :: currentaudiostream
  currentvideostream :: currentvideostream
  elapsed_seconds :: int

record audio_stream =
  downloadable_id :: string
  bitrate :: int

record audio_track =
  language :: string
  channels :: string
  new_track_id :: string
  streams :: "audio_stream list"

record video_stream =
  downloadable_id :: string
  content_profile :: string
  res_w :: int
  res_h :: int

record video_track =
  new_track_id :: string
  streams :: "video_stream list"

record sub_track =
  isNoneTrack :: bool
  new_track_id :: string

text \<open>
  The module reads two keys of a subtitle track and nothing else; whatever else a track
  carries (language, format, downloadables) is the extension \<open>'x\<close> of the record.
\<close>

record 'x manifest =
  audio_tracks :: "audio_track list"
  video_tracks :: "video_track list"
  timedtexttracks :: "'x sub_track_scheme list"

subsection \<open>Formatting integers\<close>

text \<open>Python's \<^verbatim>\<open>str\<close> of an integer, as the f-strings of the error messages use it.\<close>

definition digit_char :: "int \<Rightarrow> char" where
  "digit_char d = char_of (48 + d)"

function str_digits :: "int \<Rightarrow> string" where
  "str_digits n =
     (if n < 10 then [digit_char n] else str_digits (n div 10) @ [digit_char (n mod 10)])"
  by pat_completeness auto
termination
  by (relation "measure nat") auto

declare str_digits.simps [simp del]

definition str_int :: "int \<Rightarrow> string" where
  "str_int i = (if i < 0 then CHR ''-'' # str_digits (- i) else str_digits i)"

subsection \<open>Channel table\<close>

text \<open>\<^verbatim>\<open>AUDIO_CHANNELS_CONV = {1: '1.0', 2: '2.0', 6: '5.1', 8: '7.1'}\<close>\<close>

definition AUDIO_CHANNELS_CONV :: "int \<rightharpoonup> string" where
  "AUDIO_CHANNELS_CONV = [1 \<mapsto> ''1.0'', 2 \<mapsto> ''2.0'', 6 \<mapsto> ''5.1'', 8 \<mapsto> ''7.1'']"

text \<open>The subscript \<^verbatim>\<open>AUDIO_CHANNELS_CONV[n]\<close>: a missing key raises \<^verbatim>\<open>KeyError\<close>.\<close>

definition channels_conv :: "int \<Rightarrow> error + string" where
  "channels_conv n = (case AUDIO_CHANNELS_CONV n of None \<Rightarrow> Inl (KeyError n) | Some l \<Rightarrow> Inr l)"

subsection \<open>Stream matchers\<close>

text \<open>
  Python's \<^verbatim>\<open>max(xs, key=k)\<close>: \<^verbatim>\<open>ValueError\<close> on an empty sequence; otherwise the
  running maximum is replaced only by an item whose key is strictly greater, so the first
  of several maximal items is returned.
\<close>

fun py_max :: "('a \<Rightarrow> int) \<Rightarrow> 'a list \<Rightarrow> error + 'a" where
  "py_max k [] = Inl ValueError"
| "py_max k (x # xs) = Inr (foldl (\<lambda>best y. if k best < k y then y else best) x xs)"

text \<open>
  The language the audio tracks are compared with. \<^verbatim>\<open>common.convert_language_iso\<close> is not
  part of this module and is the parameter \<open>conv\<close>; a result that Python takes as false
  (\<^verbatim>\<open>None\<close> or the empty string) leaves the language of the player unchanged.
\<close>

definition audio_language :: "(string \<Rightarrow> string option) \<Rightarrow> player_state \<Rightarrow> string" where
  "audio_language conv player_state =
     (case conv (currentaudiostream.language (currentaudiostream player_state)) of
        None \<Rightarrow> currentaudiostream.language (currentaudiostream player_state)
      | Some l \<Rightarrow> if l = [] then currentaudiostream.language (currentaudiostream player_state) else l)"

definition audio_not_found :: "string \<Rightarrow> string \<Rightarrow> error" where
  "audio_not_found lang chans =
     Exception (''build_media_tag: unable to find audio data with language: '' @ lang
                @ '', channels: '' @ chans)"

text \<open>The loop over \<^verbatim>\<open>manifest['audio_tracks']\<close> and the \<^verbatim>\<open>raise\<close> that follows it.\<close>

definition audio_track_matches :: "string \<Rightarrow> string \<Rightarrow> audio_track \<Rightarrow> bool" where
  "audio_track_matches lang chans audio_track =
     (audio_track.language audio_track = lang \<and> audio_track.channels audio_track = chans)"

fun audio_tracks_loop :: "string \<Rightarrow> string \<Rightarrow> audio_track list \<Rightarrow> error + (string \<times> string)" where
  "audio_tracks_loop lang chans [] = Inl (audio_not_found lang chans)"
| "audio_tracks_loop lang chans (audio_track # rest) =
     (if audio_track_matches lang chans audio_track
      then (case py_max bitrate (audio_track.streams audio_track) of
              Inl e \<Rightarrow> Inl e
            | Inr stream \<Rightarrow>
                Inr (audio_stream.downloadable_id stream, audio_track.new_track_id audio_track))
      else audio_tracks_loop lang chans rest)"

definition find_audio_data ::
  "(string \<Rightarrow> string option) \<Rightarrow> player_state \<Rightarrow> 'x manifest \<Rightarrow> error + (string \<times> string)" where
  "find_audio_data conv player_state manifest =
     (case channels_conv (currentaudiostream.channels (currentaudiostream player_state)) of
        Inl e \<Rightarrow> Inl e
      | Inr chans \<Rightarrow>
          audio_tracks_loop (audio_language conv player_state) chans (audio_tracks manifest))"

text \<open>Python's \<^verbatim>\<open>a in b\<close> on strings: \<open>a\<close> occurs in \<open>b\<close> as a contiguous block.\<close>

fun str_in :: "string \<Rightarrow> string \<Rightarrow> bool" where
  "str_in a [] = (a = [])"
| "str_in a (c # cs) = (prefix a (c # cs) \<or> str_in a cs)"

definition video_matches :: "string \<Rightarrow> int \<Rightarrow> int \<Rightarrow> video_stream \<Rightarrow> bool" where
  "video_matches cdc w h stream =
     (str_in cdc (content_profile stream) \<and> w = res_w stream \<and> h = res_h stream)"

definition video_not_found :: "string \<Rightarrow> int \<Rightarrow> int \<Rightarrow> error" where
  "video_not_found cdc w h =
     Exception (''build_media_tag: unable to find video data with codec: '' @ cdc
                @ '', width: '' @ str_int w @ '', height: '' @ str_int h)"

text \<open>
  The inner loop over the streams of one video track: the first matching stream ends the
  search, no match hands over to the next track.
\<close>

fun video_streams_loop :: "string \<Rightarrow> int \<Rightarrow> int \<Rightarrow> video_track \<Rightarrow> video_stream list \<Rightarrow> (string \<times> string) option" where
  "video_streams_loop cdc w h video_track [] = None"
| "video_streams_loop cdc w h video_track (stream # rest) =
     (if video_matches cdc w h stream
      then Some (video_stream.downloadable_id stream, video_track.new_track_id video_track)
      else video_streams_loop cdc w h video_track rest)"

fun video_tracks_loop :: "string \<Rightarrow> int \<Rightarrow> int \<Rightarrow> video_track list \<Rightarrow> error + (string \<times> string)" where
  "video_tracks_loop cdc w h [] = Inl (video_not_found cdc w h)"
| "video_tracks_loop cdc w h (video_track # rest) =
     (case video_streams_loop cdc w h video_track (video_track.streams video_track) of
        Some r \<Rightarrow> Inr r
      | None \<Rightarrow> video_tracks_loop cdc w h rest)"

definition find_video_data :: "player_state \<Rightarrow> 'x manifest \<Rightarrow> error + (string \<times> string)" where
  "find_video_data player_state manifest =
     video_tracks_loop (codec (currentvideostream player_state))
       (width (currentvideostream player_state)) (height (currentvideostream player_state))
       (video_tracks manifest)"

text \<open>
  The streams of the manifest in the order the two nested loops visit them: the tracks in
  their order, the streams of each track in theirs, every stream with its track.
\<close>

definition video_pairs :: "'x manifest \<Rightarrow> (video_track \<times> video_stream) list" where
  "video_pairs manifest =
     concat (map (\<lambda>t. map (\<lambda>s. (t, s)) (video_track.streams t)) (video_tracks manifest))"

definition subtitle_not_found :: error where
  "subtitle_not_found = Exception ''build_media_tag: unable to find subtitle data''"

fun sub_tracks_loop :: "'x sub_track_scheme list \<Rightarrow> error + string" where
  "sub_tracks_loop [] = Inl subtitle_not_found"
| "sub_tracks_loop (sub_track # rest) =
     (if isNoneTrack sub_track then Inr (sub_track.new_track_id sub_track)
      else sub_tracks_loop rest)"

definition find_subtitle_data :: "'x manifest \<Rightarrow> error + string" where
  "find_subtitle_data manifest = sub_tracks_loop (timedtexttracks manifest)"

subsection \<open>Media tag\<close>

record stream_time =
  downloadableId :: string
  duration :: int

record play_times =
  total :: int
  audio :: "stream_time list"
  video :: "stream_time list"
  text' :: "stream_time list"

text \<open>
  \<^verbatim>\<open>common.apply_lang_code_changes\<close> rewrites the audio tracks of the manifest in place
  before the matchers read them; it is outside this module and is the parameter
  \<open>apply_lang_code_changes\<close>. An exception of a matcher leaves \<^verbatim>\<open>build_media_tag\<close> at
  once, in the order audio, video, subtitle.
\<close>

definition build_media_tag ::
  "(audio_track list \<Rightarrow> audio_track list) \<Rightarrow> (string \<Rightarrow> string option) \<Rightarrow>
   player_state \<Rightarrow> 'x manifest \<Rightarrow> int \<Rightarrow> error + (play_times \<times> string \<times> string \<times> string)" where
  "build_media_tag apply_lang_code_changes conv player_state manifest0 position =
     (let manifest = manifest0\<lparr>audio_tracks := apply_lang_code_changes (audio_tracks manifest0)\<rparr>
      in case find_audio_data conv player_state manifest of
           Inl e \<Rightarrow> Inl e
         | Inr (audio_downloadable_id, audio_track_id) \<Rightarrow>
        (case find_video_data player_state manifest of
           Inl e \<Rightarrow> Inl e
         | Inr (video_downloadable_id, video_track_id) \<Rightarrow>
        (case find_subtitle_data manifest of
           Inl e \<Rightarrow> Inl e
         | Inr text_track_id \<Rightarrow>
             (let duration = position - 1;
                  play_times = \<lparr>total = duration,
                     audio = [\<lparr>downloadableId = audio_downloadable_id, duration = duration\<rparr>],
                     video = [\<lparr>downloadableId = video_downloadable_id, duration = duration\<rparr>],
                     text' = []\<rparr>
              in Inr (play_times, video_track_id, audio_track_id, text_track_id)))))"

subsection \<open>Change detection\<close>

text \<open>
  \<^verbatim>\<open>not previous_player_state\<close> holds when there is no previous state. The two stream
  descriptors are compared as wholes; the rest of the player state (the extension of the
  record) is not read.
\<close>

definition is_media_changed :: "'a player_state_scheme option \<Rightarrow> 'b player_state_scheme \<Rightarrow> bool" where
  "is_media_changed previous_player_state player_state =
     (case previous_player_state of
        None \<Rightarrow> True
      | Some previous \<Rightarrow>
          if currentvideostream player_state \<noteq> currentvideostream previous
             \<or> currentaudiostream player_state \<noteq> currentaudiostream previous
          then True else False)"

text \<open>A player state that also reports its subtitle stream.\<close>

record player_state_subs = player_state +
  currentsubtitle :: string
  subtitleenabled :: bool

subsection \<open>Error dialog decorator\<close>

text \<open>The arguments of one call of \<^verbatim>\<open>ui.show_error_info\<close>.\<close>

record error_info =
  title :: string
  message :: string
  unknown_error :: bool
  netflix_error :: bool

text \<open>
  What the decorator reads of a raised exception: whether it is an instance of
  \<^verbatim>\<open>Exception\<close> (\<^verbatim>\<open>KeyboardInterrupt\<close>, \<^verbatim>\<open>SystemExit\<close> and \<^verbatim>\<open>GeneratorExit\<close> are not), the
  name of its class, its \<^verbatim>\<open>str\<close>, which is computed by the exception's own code and may
  raise in its turn, and whether it is an \<^verbatim>\<open>MSLError\<close>.
\<close>

record 'e exc_view =
  is_Exception :: "'e \<Rightarrow> bool"
  class_name :: "'e \<Rightarrow> string"
  exc_str :: "'e \<Rightarrow> 'e + string"
  is_MSLError :: "'e \<Rightarrow> bool"

text \<open>
  The wrapped function runs on its arguments and on the state \<open>'w\<close> of everything outside
  (the user interface included) and ends with a result or an exception. The dialog
  \<^verbatim>\<open>ui.show_error_info\<close> and the string table \<^verbatim>\<open>common.get_local_string\<close> are
  parameters. The handler is \<^verbatim>\<open>except Exception\<close>: an exception that is not an instance of
  \<^verbatim>\<open>Exception\<close> passes through it untouched. In the handler the message is formatted
  first; an exception raised by \<^verbatim>\<open>str(exc)\<close> leaves the wrapper in the place of the caught
  one, before any dialog. The bare \<^verbatim>\<open>raise\<close> raises the caught exception again.
\<close>

definition display_error_info ::
  "(int \<Rightarrow> string) \<Rightarrow> (error_info \<Rightarrow> 'w \<Rightarrow> 'w) \<Rightarrow> 'e exc_view \<Rightarrow>
   ('a \<Rightarrow> 'w \<Rightarrow> ('e + 'r) \<times> 'w) \<Rightarrow> 'a \<Rightarrow> 'w \<Rightarrow> ('e + 'r) \<times> 'w" where
  "display_error_info get_local_string show_error_info view func args w =
     (case func args w of
        (Inr r, w') \<Rightarrow> (Inr r, w')
      | (Inl exc, w') \<Rightarrow>
          if is_Exception view exc
          then (case exc_str view exc of
                  Inl raised_by_str \<Rightarrow> (Inl raised_by_str, w')
                | Inr text_of_exc \<Rightarrow>
                    (let message = class_name view exc @ '': '' @ text_of_exc
                     in (Inl exc,
                         show_error_info
                           \<lparr>title = get_local_string 30028, message = message,
                            unknown_error = (message = []),
                            netflix_error = is_MSLError view exc\<rparr> w')))
          else (Inl exc, w'))"

subsection \<open>Strings\<close>

text \<open>\<^verbatim>\<open>s.replace(old, new)\<close> for a pattern \<open>old\<close> of one character.\<close>

definition replace_char :: "char \<Rightarrow> string \<Rightarrow> string \<Rightarrow> string" where
  "replace_char old new s = concat (map (\<lambda>c. if c = old then new else [c]) s)"

text \<open>
  \<^verbatim>\<open>s.lower()\<close> on code points below 256: the letters A to Z and the capital letters
  of Latin-1 (192 to 222 without the multiplication sign 215) move up by 32.
\<close>

definition lower_char :: "char \<Rightarrow> char" where
  "lower_char c =
     (let n = (of_char c :: int)
      in if (65 \<le> n \<and> n \<le> 90) \<or> (192 \<le> n \<and> n \<le> 222 \<and> n \<noteq> 215) then char_of (n + 32) else c)"

definition lower :: "string \<Rightarrow> string" where
  "lower s = map lower_char s"

text \<open>\<^verbatim>\<open>sep.join(xs)\<close>\<close>

fun join :: "string \<Rightarrow> string list \<Rightarrow> string" where
  "join sep [] = []"
| "join sep [x] = x"
| "join sep (x # y # ys) = x @ sep @ join sep (y # ys)"

subsection \<open>Session table\<close>

text \<open>
  \<^verbatim>\<open>G.LOCAL_DB.get_value(key, default, table=TABLE_SESSION)\<close>: the stored value, or the
  default when the key is not stored. The table is a parameter.
\<close>

definition get_value :: "(string \<rightharpoonup> string) \<Rightarrow> string \<Rightarrow> string \<Rightarrow> string" where
  "get_value session key default_value = (case session key of None \<Rightarrow> default_value | Some v \<Rightarrow> v)"

subsection \<open>Request parameters\<close>

text \<open>
  \<^verbatim>\<open>urllib.parse.quote_plus\<close>: letters, digits and \<^verbatim>\<open>_.-~\<close> stay, a space becomes a
  plus sign, every other character becomes the percent escapes of its UTF-8 bytes.
\<close>

definition always_safe :: "char \<Rightarrow> bool" where
  "always_safe c =
     (let n = (of_char c :: int)
      in (65 \<le> n \<and> n \<le> 90) \<or> (97 \<le> n \<and> n \<le> 122) \<or> (48 \<le> n \<and> n \<le> 57) \<or> c \<in> set ''_.-~'')"

definition utf8 :: "char \<Rightarrow> int list" where
  "utf8 c = (let n = (of_char c :: int) in if n < 128 then [n] else [192 + n div 64, 128 + n mod 64])"

definition hex_upper :: "int \<Rightarrow> char" where
  "hex_upper d = (if d < 10 then char_of (48 + d) else char_of (55 + d))"

definition percent :: "int \<Rightarrow> string" where
  "percent b = [CHR ''%'', hex_upper (b div 16), hex_upper (b mod 16)]"

definition quote_char :: "char \<Rightarrow> string" where
  "quote_char c =
     (if always_safe c then [c] else if c = CHR '' '' then ''+'' else concat (map percent (utf8 c)))"

definition quote_plus :: "string \<Rightarrow> string" where
  "quote_plus s = concat (map quote_char s)"

text \<open>\<^verbatim>\<open>urllib.parse.urlencode\<close> of a list of pairs of strings.\<close>

definition urlencode :: "(string \<times> string) list \<Rightarrow> string" where
  "urlencode query = join ''&'' (map (\<lambda>(k, v). quote_plus k @ ''='' @ quote_plus v) query)"

text \<open>The list \<^verbatim>\<open>params\<close> of \<^verbatim>\<open>create_req_params\<close>.\<close>

definition req_params :: "(string \<rightharpoonup> string) \<Rightarrow> string \<Rightarrow> (string \<times> string) list" where
  "req_params session req_name =
     [(''reqAttempt'', []),
      (''reqName'', req_name),
      (''clienttype'', ''akira''),
      (''uiversion'', get_value session ''build_identifier'' []),
      (''browsername'', ''chrome''),
      (''browserversion'', lower (get_value session ''browser_info_version'' [])),
      (''osname'', lower (get_value session ''browser_info_os_name'' [])),
      (''osversion'', get_value session ''browser_info_os_version'' [])]"

definition create_req_params :: "(string \<rightharpoonup> string) \<Rightarrow> string \<Rightarrow> string" where
  "create_req_params session req_name = ''?'' @ urlencode (req_params session req_name)"

subsection \<open>Log blob\<close>

text \<open>The values \<^verbatim>\<open>json.dumps\<close> is given here: strings, integers, lists and dictionaries.\<close>

datatype json = JStr string | JInt int | JList "json list" | JDict "(string \<times> json) list"

text \<open>
  The string encoder of \<^verbatim>\<open>json.dumps\<close> with \<^verbatim>\<open>ensure_ascii\<close>: the printable ASCII
  characters stand for themselves, but for the quotation mark and the backslash; the rest
  is a short escape or \<^verbatim>\<open>\uXXXX\<close> in lower-case hexadecimal digits.
\<close>

definition hex_lower :: "int \<Rightarrow> char" where
  "hex_lower d = (if d < 10 then char_of (48 + d) else char_of (87 + d))"

definition json_escape_char :: "char \<Rightarrow> string" where
  "json_escape_char c =
     (let n = (of_char c :: int)
      in if n = 34 then [CHR 0x5C, CHR 0x22]
         else if n = 92 then [CHR 0x5C, CHR 0x5C]
         else if 32 \<le> n \<and> n \<le> 126 then [c]
         else if n = 10 then [CHR 0x5C, CHR ''n'']
         else if n = 13 then [CHR 0x5C, CHR ''r'']
         else if n = 9 then [CHR 0x5C, CHR ''t'']
         else if n = 8 then [CHR 0x5C, CHR ''b'']
         else if n = 12 then [CHR 0x5C, CHR ''f'']
         else [CHR 0x5C, CHR ''u'', CHR ''0'', CHR ''0'', hex_lower (n div 16), hex_lower (n mod 16)])"

definition json_string :: "string \<Rightarrow> string" where
  "json_string s = [CHR 0x22] @ concat (map json_escape_char s) @ [CHR 0x22]"

text \<open>\<^verbatim>\<open>json.dumps\<close> with its default separators \<^verbatim>\<open>', '\<close> and \<^verbatim>\<open>': '\<close>.\<close>

fun json_dumps :: "json \<Rightarrow> string" where
  "json_dumps (JStr s) = json_string s"
| "json_dumps (JInt i) = str_int i"
| "json_dumps (JList xs) = ''['' @ join '', '' (map json_dumps xs) @ '']''"
| "json_dumps (JDict kvs) =
     ''{'' @ join '', '' (map (\<lambda>(k, v). json_string k @ '': '' @ json_dumps v) kvs) @ ''}''"

text \<open>
  What \<^verbatim>\<open>generate_logblobs_params\<close> reads from outside: the screen, the user agent,
  the session table, a fresh UUID, the ESN, the clock (\<open>clienttime\<close> is
  \<^verbatim>\<open>int(timestamp_utc * 1000)\<close>, \<open>client_utc\<close> is \<^verbatim>\<open>int(timestamp_utc)\<close>, \<open>app_time\<close> is
  \<^verbatim>\<open>int(time.time())\<close> of the second reading) and the random number.
\<close>

record logblob_env =
  screen_width :: int
  screen_height :: int
  user_agent :: string
  session :: "string \<rightharpoonup> string"
  random_uuid :: string
  esn :: string
  clienttime :: int
  client_utc :: int
  app_time :: int
  randint :: int

definition blob :: "logblob_env \<Rightarrow> json" where
  "blob env =
     (let screen_size = str_int (screen_width env) @ ''x'' @ str_int (screen_height env);
          app_id = app_time env * 10000 + randint env
      in JDict
        [(''browserua'', JStr (replace_char CHR '' '' ''#'' (user_agent env))),
         (''browserhref'', JStr ''https://www.netflix.com/browse''),
         (''screensize'', JStr screen_size),
         (''screenavailsize'', JStr screen_size),
         (''clientsize'', JStr screen_size),
         (''type'', JStr ''startup''),
         (''sev'', JStr ''info''),
         (''devmod'', JStr ''chrome-cadmium''),
         (''clver'', JStr (get_value (session env) ''client_version'' [])),
         (''osplatform'', JStr (get_value (session env) ''browser_info_os_name'' [])),
         (''osver'', JStr (get_value (session env) ''browser_info_os_version'' [])),
         (''browsername'', JStr ''Chrome''),
         (''browserver'', JStr (get_value (session env) ''browser_info_version'' [])),
         (''appLogSeqNum'', JInt 0),
         (''uniqueLogId'', JStr (random_uuid env)),
         (''appId'', JInt app_id),
         (''esn'', JStr (esn env)),
         (''lver'', JStr []),
         (''clienttime'', JInt (clienttime env)),
         (''client_utc'', JInt (client_utc env)),
         (''uiver'', JStr (get_value (session env) ''ui_version'' []))])"

definition blobs_dump :: "logblob_env \<Rightarrow> string" where
  "blobs_dump env = json_dumps (JDict [(''entries'', JList [blob env])])"

text \<open>
  The three replacements on the dump. In the source the second argument of the first one
  is the string literal \<^verbatim>\<open>'\"'\<close>, which Python reads as the quotation mark alone.
\<close>

definition escape_dump :: "string \<Rightarrow> string" where
  "escape_dump d =
     replace_char CHR ''#'' '' '' (replace_char CHR '' '' [] (replace_char CHR 0x22 [CHR 0x22] d))"

record logblobs_params =
  logblobs :: string

definition generate_logblobs_params :: "logblob_env \<Rightarrow> logblobs_params" where
  "generate_logblobs_params env = \<lparr>logblobs = escape_dump (blobs_dump env)\<rparr>"

text \<open>
  The reverse of the two stages, as the specification words it: the space goes back to
  the marker \<^verbatim>\<open>#\<close>, then the quotation marks are unescaped (the reverse of replacing
  a quotation mark by itself).
\<close>

definition unescape_dump :: "string \<Rightarrow> string" where
  "unescape_dump d = replace_char CHR 0x22 [CHR 0x22] (replace_char CHR '' '' ''#'' d)"

subsection \<open>Reading a query string\<close>

text \<open>
  The reader of the other side, \<^verbatim>\<open>urllib.parse.parse_qsl\<close> with blank values kept. It is
  not part of the module; it says which fields a query string carries. The string is cut
  at every \<^verbatim>\<open>&\<close>, empty pieces are dropped, each piece is cut at its first \<^verbatim>\<open>=\<close>, and
  both halves are unquoted: a plus sign is a space, \<^verbatim>\<open>%XX\<close> is a byte, and the bytes are
  read as UTF-8 (here for the code points below 256).
\<close>

text \<open>\<^verbatim>\<open>s.split(sep)\<close> for a separator of one character.\<close>

fun split_on :: "char \<Rightarrow> string \<Rightarrow> string list" where
  "split_on sep [] = [[]]"
| "split_on sep (c # cs) =
     (if c = sep then [] # split_on sep cs
      else (case split_on sep cs of [] \<Rightarrow> [[c]] | w # ws \<Rightarrow> (c # w) # ws))"

text \<open>The value of a hexadecimal digit, and -1 for any other character.\<close>

definition hexval :: "char \<Rightarrow> int" where
  "hexval c =
     (let n = (of_char c :: int)
      in if 48 \<le> n \<and> n \<le> 57 then n - 48
         else if 65 \<le> n \<and> n \<le> 70 then n - 55
         else if 97 \<le> n \<and> n \<le> 102 then n - 87
         else - 1)"

fun unquote_to_bytes :: "string \<Rightarrow> int list" where
  "unquote_to_bytes (p # a # b # rest) =
     (if p = CHR ''%'' \<and> 0 \<le> hexval a \<and> 0 \<le> hexval b
      then (16 * hexval a + hexval b) # unquote_to_bytes rest
      else of_char p # unquote_to_bytes (a # b # rest))"
| "unquote_to_bytes (x # xs) = of_char x # unquote_to_bytes xs"
| "unquote_to_bytes [] = []"

fun utf8_decode :: "int list \<Rightarrow> string" where
  "utf8_decode (b1 # b2 # bs) =
     (if b1 < 128 then char_of b1 # utf8_decode (b2 # bs)
      else char_of ((b1 - 192) * 64 + (b2 - 128)) # utf8_decode bs)"
| "utf8_decode [b] = [char_of b]"
| "utf8_decode [] = []"

definition unquote_plus :: "string \<Rightarrow> string" where
  "unquote_plus s = utf8_decode (unquote_to_bytes (replace_char CHR ''+'' '' '' s))"

definition parse_qsl :: "string \<Rightarrow> (string \<times> string) list" where
  "parse_qsl qs =
     map (\<lambda>name_value.
            (unquote_plus (takeWhile (\<lambda>c. c \<noteq> CHR ''='') name_value),
             unquote_plus (tl (dropWhile (\<lambda>c. c \<noteq> CHR ''='') name_value))))
       (filter (\<lambda>name_value. name_value \<noteq> []) (split_on CHR ''&'' qs))"


text \<open>
  The shapes \<^verbatim>\<open>quote_plus\<close> gives one character: the character itself, one percent escape
  or two, each read back as the character it came from.
\<close>

definition quote_shape :: "char \<Rightarrow> bool" where
  "quote_shape c =
     (let q = replace_char CHR ''+'' '' '' (quote_char c);
          b1 = 16 * hexval (q ! 1) + hexval (q ! 2);
          b2 = 16 * hexval (q ! 4) + hexval (q ! 5)
      in (q = [q ! 0] \<and> q ! 0 \<noteq> CHR ''%'' \<and> of_char (q ! 0) < (128::int)
            \<and> char_of (of_char (q ! 0) :: int) = c)
       \<or> (q = [CHR ''%'', q ! 1, q ! 2] \<and> 0 \<le> hexval (q ! 1) \<and> 0 \<le> hexval (q ! 2)
            \<and> b1 < 128 \<and> char_of b1 = c)
       \<or> (q = [CHR ''%'', q ! 1, q ! 2, CHR ''%'', q ! 4, q ! 5]
            \<and> 0 \<le> hexval (q ! 1) \<and> 0 \<le> hexval (q ! 2)
            \<and> 0 \<le> hexval (q ! 4) \<and> 0 \<le> hexval (q ! 5)
            \<and> 128 \<le> b1 \<and> char_of ((b1 - 192) * 64 + (b2 - 128)) = c))"

subsection \<open>Example inputs\<close>

text \<open>A language converter that knows no language, as in the fixed-locale mode.\<close>

definition no_conversion :: "string \<Rightarrow> string option" where
  "no_conversion raw = None"

text \<open>A player on English 5.1 audio and 1920 by 1080 H.264 video.\<close>

definition ps_en6 :: player_state where
  "ps_en6 =
     \<lparr>currentaudiostream =
        \<lparr>currentaudiostream.language = ''en'', currentaudiostream.channels = 6\<rparr>,
      currentvideostream = \<lparr>codec = ''h264'', width = 1920, height = 1080\<rparr>,
      elapsed_seconds = 5\<rparr>"

text \<open>The same player reporting three channels, a count the table does not have.\<close>

definition ps_en3 :: player_state where
  "ps_en3 =
     ps_en6\<lparr>currentaudiostream :=
        \<lparr>currentaudiostream.language = ''en'', currentaudiostream.channels = 3\<rparr>\<rparr>"

definition track_en51 :: audio_track where
  "track_en51 =
     \<lparr>audio_track.language = ''en'', audio_track.channels = ''5.1'',
      audio_track.new_track_id = ''T1'',
      audio_track.streams =
        [\<lparr>audio_stream.downloadable_id = ''A'', bitrate = 100\<rparr>,
         \<lparr>audio_stream.downloadable_id = ''B'', bitrate = 300\<rparr>,
         \<lparr>audio_stream.downloadable_id = ''C'', bitrate = 300\<rparr>]\<rparr>"

definition track_de20 :: audio_track where
  "track_de20 =
     \<lparr>audio_track.language = ''de'', audio_track.channels = ''2.0'',
      audio_track.new_track_id = ''T2'',
      audio_track.streams = [\<lparr>audio_stream.downloadable_id = ''D'', bitrate = 96\<rparr>]\<rparr>"

text \<open>An English 5.1 track that lists no stream.\<close>

definition track_en51_empty :: audio_track where
  "track_en51_empty =
     \<lparr>audio_track.language = ''en'', audio_track.channels = ''5.1'',
      audio_track.new_track_id = ''T0'', audio_track.streams = []\<rparr>"

definition stream_720 :: video_stream where
  "stream_720 =
     \<lparr>video_stream.downloadable_id = ''v720'', content_profile = ''playready-h264mpl30-dash'',
      res_w = 1280, res_h = 720\<rparr>"

definition stream_1080 :: video_stream where
  "stream_1080 =
     \<lparr>video_stream.downloadable_id = ''v1080'', content_profile = ''playready-h264mpl40-dash'',
      res_w = 1920, res_h = 1080\<rparr>"

definition stream_1080b :: video_stream where
  "stream_1080b =
     \<lparr>video_stream.downloadable_id = ''v1080b'', content_profile = ''playready-h264hpl40-dash'',
      res_w = 1920, res_h = 1080\<rparr>"

definition track_video :: video_track where
  "track_video =
     \<lparr>video_track.new_track_id = ''V1'',
      video_track.streams = [stream_720, stream_1080, stream_1080b]\<rparr>"

text \<open>The player of above on a picture one pixel wider, which no stream has.\<close>

definition ps_1921 :: player_state where
  "ps_1921 = ps_en6\<lparr>currentvideostream := \<lparr>codec = ''h264'', width = 1921, height = 1080\<rparr>\<rparr>"

definition sub_tracks_ex :: "sub_track list" where
  "sub_tracks_ex =
     [\<lparr>isNoneTrack = False, sub_track.new_track_id = ''S1''\<rparr>,
      \<lparr>isNoneTrack = True, sub_track.new_track_id = ''S0''\<rparr>,
      \<lparr>isNoneTrack = True, sub_track.new_track_id = ''S9''\<rparr>]"

definition manifest_ex :: "unit manifest" where
  "manifest_ex =
     \<lparr>audio_tracks = [track_de20, track_en51], video_tracks = [track_video],
      timedtexttracks = sub_tracks_ex\<rparr>"

text \<open>
  A manifest whose only English 5.1 track lists no stream, and one where such a track
  stands before a complete one.
\<close>

definition manifest_empty_streams :: "unit manifest" where
  "manifest_empty_streams = manifest_ex\<lparr>audio_tracks := [track_de20, track_en51_empty]\<rparr>"

definition manifest_empty_first :: "unit manifest" where
  "manifest_empty_first =
     manifest_ex\<lparr>audio_tracks := [track_de20, track_en51_empty, track_en51]\<rparr>"

definition manifest_no_none_track :: "unit manifest" where
  "manifest_no_none_track =
     manifest_ex\<lparr>timedtexttracks := [\<lparr>isNoneTrack = False, sub_track.new_track_id = ''S1''\<rparr>]\<rparr>"

text \<open>Subtitle tracks that also carry a language and a format.\<close>

record text_track = sub_track +
  text_language :: string
  rawTrackType :: string

definition manifest_text :: "\<lparr>text_language :: string, rawTrackType :: string\<rparr> manifest" where
  "manifest_text =
     \<lparr>audio_tracks = [track_de20, track_en51], video_tracks = [track_video],
      timedtexttracks =
        [\<lparr>isNoneTrack = False, sub_track.new_track_id = ''S1'', text_language = ''en'',
          rawTrackType = ''subtitles''\<rparr>,
         \<lparr>isNoneTrack = True, sub_track.new_track_id = ''S0'', text_language = ''de'',
          rawTrackType = ''closedcaptions''\<rparr>,
         \<lparr>isNoneTrack = True, sub_track.new_track_id = ''S9'', text_language = ''fr'',
          rawTrackType = ''subtitles''\<rparr>]\<rparr>"

text \<open>
  Two player states on the same audio and video streams that differ in the subtitle
  stream and in the elapsed time.
\<close>

definition ps_subs_a :: player_state_subs where
  "ps_subs_a =
     \<lparr>currentaudiostream =
        \<lparr>currentaudiostream.language = ''en'', currentaudiostream.channels = 6\<rparr>,
      currentvideostream = \<lparr>codec = ''h264'', width = 1920, height = 1080\<rparr>,
      elapsed_seconds = 5, currentsubtitle = ''en'', subtitleenabled = True\<rparr>"

definition ps_subs_b :: player_state_subs where
  "ps_subs_b = ps_subs_a\<lparr>elapsed_seconds := 9, currentsubtitle := ''de'', subtitleenabled := False\<rparr>"

text \<open>
  Exceptions for an operation to decorate: a plain \<^verbatim>\<open>Exception\<close> with a message, a
  \<^verbatim>\<open>KeyboardInterrupt\<close>, and an \<^verbatim>\<open>Exception\<close> of a class whose \<^verbatim>\<open>__str__\<close> raises a plain
  \<^verbatim>\<open>Exception\<close>.
\<close>

datatype exc_ex = Failure string | KeyboardInterrupt | Unprintable

fun exc_ex_is_Exception :: "exc_ex \<Rightarrow> bool" where
  "exc_ex_is_Exception (Failure m) = True"
| "exc_ex_is_Exception KeyboardInterrupt = False"
| "exc_ex_is_Exception Unprintable = True"

fun exc_ex_class_name :: "exc_ex \<Rightarrow> string" where
  "exc_ex_class_name (Failure m) = ''Exception''"
| "exc_ex_class_name KeyboardInterrupt = ''KeyboardInterrupt''"
| "exc_ex_class_name Unprintable = ''Unprintable''"

fun exc_ex_str :: "exc_ex \<Rightarrow> exc_ex + string" where
  "exc_ex_str (Failure m) = Inr m"
| "exc_ex_str KeyboardInterrupt = Inr []"
| "exc_ex_str Unprintable = Inl (Failure ''no text'')"

definition exc_ex_view :: "exc_ex exc_view" where
  "exc_ex_view =
     \<lparr>is_Exception = exc_ex_is_Exception, class_name = exc_ex_class_name,
      exc_str = exc_ex_str, is_MSLError = (\<lambda>e. False)\<rparr>"

text \<open>
  The operation: it raises the three exceptions on the arguments 0, 1 and 2 and returns
  its argument otherwise. The user interface is the list of the dialogs shown so far.
\<close>

definition raises_below_three :: "nat \<Rightarrow> error_info list \<Rightarrow> (exc_ex + nat) \<times> error_info list" where
  "raises_below_three n ui =
     (if n = 0 then (Inl (Failure ''zero''), ui)
      else if n = 1 then (Inl KeyboardInterrupt, ui)
      else if n = 2 then (Inl Unprintable, ui)
      else (Inr n, ui))"

definition local_string :: "int \<Rightarrow> string" where
  "local_string n = (if n = 30028 then ''Error details'' else [])"

definition show_dialog :: "error_info \<Rightarrow> error_info list \<Rightarrow> error_info list" where
  "show_dialog info ui = ui @ [info]"

text \<open>
  Two sessions that differ in the name of the operating system alone: with and without
  spaces.
\<close>

definition env_mac :: logblob_env where
  "env_mac =
     \<lparr>screen_width = 1920, screen_height = 1080,
      user_agent = ''Mozilla/5.0 (Macintosh; Intel Mac OS X 10_15_5) Chrome/84.0.4147.136'',
      session = [''client_version'' \<mapsto> ''6.0021.220.051'',
                 ''browser_info_os_name'' \<mapsto> ''Mac OS X'',
                 ''browser_info_os_version'' \<mapsto> ''10.15.5'',
                 ''browser_info_version'' \<mapsto> ''84.0.4147.136'',
                 ''ui_version'' \<mapsto> ''vdeb953cf''],
      random_uuid = ''4f3c2a10-9b7e-4d55-8c21-0a1b2c3d4e5f'',
      esn = ''NFCDCH-02-ABCDEF'',
      clienttime = 1602806400123, client_utc = 1602806400,
      app_time = 1602806400, randint = 4711\<rparr>"

definition env_macosx :: logblob_env where
  "env_macosx =
     env_mac\<lparr>session := (session env_mac)(''browser_info_os_name'' \<mapsto> ''MacOSX'')\<rparr>"

section \<open>Properties\<close>

subsection \<open>The matchers on the example manifest\<close>

lemma find_audio_data_ex: "find_audio_data no_conversion ps_en6 manifest_ex = Inr (''B'', ''T1'')"
  by code_simp

lemma find_video_data_ex: "find_video_data ps_en6 manifest_ex = Inr (''v1080'', ''V1'')"
  by code_simp

lemma find_subtitle_data_ex: "find_subtitle_data manifest_ex = Inr ''S0''"
  by code_simp

subsection \<open>Channel table\<close>

lemma channels_conv_cases:
  "channels_conv n =
     (if n = 1 then Inr ''1.0'' else if n = 2 then Inr ''2.0''
      else if n = 6 then Inr ''5.1'' else if n = 8 then Inr ''7.1'' else Inl (KeyError n))"
  by (simp add: channels_conv_def AUDIO_CHANNELS_CONV_def)

text \<open>
  Claim C5. The channel counts 1, 2, 6 and 8 are looked up as the labels 1.0, 2.0, 5.1 and
  7.1. For every other integer count the lookup raises (the \<^verbatim>\<open>KeyError\<close> of the dictionary
  subscript, which carries the count), and \<^verbatim>\<open>_find_audio_data\<close> ends with that same
  exception whatever the manifest holds: no label is put in its place.
\<close>

theorem channels_conv_table:
  "channels_conv 1 = Inr ''1.0'' \<and> channels_conv 2 = Inr ''2.0''
   \<and> channels_conv 6 = Inr ''5.1'' \<and> channels_conv 8 = Inr ''7.1''
   \<and> (n \<notin> {1, 2, 6, 8} \<longrightarrow> channels_conv n = Inl (KeyError n))
   \<and> (currentaudiostream.channels (currentaudiostream player_state) \<notin> {1, 2, 6, 8} \<longrightarrow>
        find_audio_data conv player_state manifest =
          Inl (KeyError (currentaudiostream.channels (currentaudiostream player_state))))"
  by (simp add: channels_conv_cases find_audio_data_def)

theorem channels_conv_table_witness:
  "(3::int) \<notin> {1, 2, 6, 8} \<and> channels_conv 3 = Inl (KeyError 3)
   \<and> currentaudiostream.channels (currentaudiostream ps_en3) \<notin> {1, 2, 6, 8}
   \<and> find_audio_data no_conversion ps_en3 manifest_ex = Inl (KeyError 3)"
  using channels_conv_table [of 3 ps_en3 no_conversion manifest_ex]
  by (simp add: ps_en3_def)

subsection \<open>Audio matcher\<close>

lemma foldl_max_first:
  "\<exists>sp s ss. x # xs = sp @ s # ss \<and> (\<forall>y\<in>set sp. k y < k s) \<and> (\<forall>y\<in>set ss. k y \<le> k s)
     \<and> foldl (\<lambda>best y. if k best < (k y :: int) then y else best) x xs = s"
proof (induction xs rule: rev_induct)
  case Nil
  have "x # [] = [] @ x # [] \<and> (\<forall>y\<in>set []. k y < k x) \<and> (\<forall>y\<in>set []. k y \<le> k x)
     \<and> foldl (\<lambda>best y. if k best < k y then y else best) x [] = x" by simp
  then show ?case by blast
next
  case (snoc z zs)
  then obtain sp s ss where d: "x # zs = sp @ s # ss" and lt: "\<forall>y\<in>set sp. k y < k s"
    and le: "\<forall>y\<in>set ss. k y \<le> k s"
    and f: "foldl (\<lambda>best y. if k best < k y then y else best) x zs = s" by blast
  show ?case
  proof (cases "k s < k z")
    case True
    have a: "x # zs @ [z] = (x # zs) @ z # []" by simp
    have "set (x # zs) = set sp \<union> {s} \<union> set ss" using d by simp
    then have b: "\<forall>y\<in>set (x # zs). k y < k z" using lt le True by force
    have c: "foldl (\<lambda>best y. if k best < k y then y else best) x (zs @ [z]) = z"
      using f True by simp
    have e: "\<forall>y\<in>set []. k y \<le> k z" by simp
    show ?thesis using a b c e by blast
  next
    case False
    have a: "x # zs @ [z] = sp @ s # (ss @ [z])" using d by simp
    have b: "\<forall>y\<in>set (ss @ [z]). k y \<le> k s" using le False by auto
    have c: "foldl (\<lambda>best y. if k best < k y then y else best) x (zs @ [z]) = s"
      using f False by simp
    show ?thesis using a b c lt by blast
  qed
qed

lemma py_max_first:
  assumes "xs \<noteq> []"
  shows "\<exists>sp s ss. xs = sp @ s # ss \<and> (\<forall>y\<in>set sp. k y < k s) \<and> (\<forall>y\<in>set ss. k y \<le> k s)
     \<and> py_max k xs = Inr s"
proof -
  obtain x xs' where xs: "xs = x # xs'" using assms by (cases xs) auto
  show ?thesis unfolding xs py_max.simps using foldl_max_first[of x xs' k] by blast
qed

lemma audio_tracks_loop_filter:
  "audio_tracks_loop lang chans ts =
     (case filter (audio_track_matches lang chans) ts of
        [] \<Rightarrow> Inl (audio_not_found lang chans)
      | t # rest \<Rightarrow> (case py_max bitrate (audio_track.streams t) of Inl e \<Rightarrow> Inl e
          | Inr s \<Rightarrow> Inr (audio_stream.downloadable_id s, audio_track.new_track_id t)))"
  by (induction ts) auto

lemma filter_first:
  "xs = pre @ x # post \<Longrightarrow> \<forall>y\<in>set pre. \<not> P y \<Longrightarrow> P x \<Longrightarrow> \<exists>rest. filter P xs = x # rest"
  by simp

text \<open>
  Claim C1, as amended. The player reports a channel count of the table, exactly one audio
  track of the manifest has the language and the channel label the player is compared
  with, and that track lists at least one stream. Then \<^verbatim>\<open>_find_audio_data\<close> returns the
  downloadable id of the first stream of that track whose bitrate is the greatest (every
  stream before it has a smaller bitrate, no stream after it a greater one), with the
  \<^verbatim>\<open>new_track_id\<close> of the track.
\<close>

theorem find_audio_max_bitrate:
  assumes "channels_conv (currentaudiostream.channels (currentaudiostream player_state)) = Inr chans"
    and "filter (audio_track_matches (audio_language conv player_state) chans)
           (audio_tracks manifest) = [t]"
    and "audio_track.streams t \<noteq> []"
  shows "\<exists>sp s ss. audio_track.streams t = sp @ s # ss
           \<and> (\<forall>y\<in>set sp. bitrate y < bitrate s) \<and> (\<forall>y\<in>set ss. bitrate y \<le> bitrate s)
           \<and> bitrate s = Max (bitrate ` set (audio_track.streams t))
           \<and> find_audio_data conv player_state manifest =
               Inr (audio_stream.downloadable_id s, audio_track.new_track_id t)"
proof -
  obtain sp s ss where d: "audio_track.streams t = sp @ s # ss"
    and lt: "\<forall>y\<in>set sp. bitrate y < bitrate s" and le: "\<forall>y\<in>set ss. bitrate y \<le> bitrate s"
    and m: "py_max bitrate (audio_track.streams t) = Inr s"
    using py_max_first [OF assms(3), of bitrate] by blast
  have "find_audio_data conv player_state manifest =
          Inr (audio_stream.downloadable_id s, audio_track.new_track_id t)"
    by (simp add: find_audio_data_def assms(1) audio_tracks_loop_filter assms(2) m)
  moreover have "bitrate s = Max (bitrate ` set (audio_track.streams t))"
  proof (rule Max_eqI [symmetric])
    show "finite (bitrate ` set (audio_track.streams t))" by simp
    show "bitrate s \<in> bitrate ` set (audio_track.streams t)" by (simp add: d)
    fix b assume "b \<in> bitrate ` set (audio_track.streams t)"
    then show "b \<le> bitrate s" using lt le by (auto simp: d less_imp_le)
  qed
  ultimately show ?thesis using d lt le by blast
qed

theorem find_audio_max_bitrate_witness:
  "channels_conv (currentaudiostream.channels (currentaudiostream ps_en6)) = Inr ''5.1''
   \<and> filter (audio_track_matches (audio_language no_conversion ps_en6) ''5.1'')
        (audio_tracks manifest_ex) = [track_en51]
   \<and> audio_track.streams track_en51 \<noteq> []
   \<and> (\<exists>sp s ss. audio_track.streams track_en51 = sp @ s # ss
         \<and> (\<forall>y\<in>set sp. bitrate y < bitrate s) \<and> (\<forall>y\<in>set ss. bitrate y \<le> bitrate s)
         \<and> bitrate s = Max (bitrate ` set (audio_track.streams track_en51))
         \<and> find_audio_data no_conversion ps_en6 manifest_ex =
             Inr (audio_stream.downloadable_id s, audio_track.new_track_id track_en51))
   \<and> find_audio_data no_conversion ps_en6 manifest_ex = Inr (''B'', ''T1'')"
proof -
  have h1: "channels_conv (currentaudiostream.channels (currentaudiostream ps_en6)) = Inr ''5.1''"
    by (simp add: ps_en6_def channels_conv_cases)
  have h2: "filter (audio_track_matches (audio_language no_conversion ps_en6) ''5.1'')
        (audio_tracks manifest_ex) = [track_en51]"
    by (simp add: audio_track_matches_def audio_language_def no_conversion_def ps_en6_def
        manifest_ex_def track_en51_def track_de20_def)
  have h3: "audio_track.streams track_en51 \<noteq> []"
    by (simp add: track_en51_def)
  show ?thesis using find_audio_max_bitrate [OF h1 h2 h3] h1 h2 h3 find_audio_data_ex by blast
qed

text \<open>
  The claim as it was written fails where the one matching track lists no stream: the
  player reports a count of the table, exactly one track matches, and the call ends with
  the \<^verbatim>\<open>ValueError\<close> of \<^verbatim>\<open>max\<close> and returns nothing.
\<close>

theorem find_audio_max_bitrate_counterexample:
  "channels_conv (currentaudiostream.channels (currentaudiostream ps_en6)) = Inr ''5.1''
   \<and> filter (audio_track_matches (audio_language no_conversion ps_en6) ''5.1'')
        (audio_tracks manifest_empty_streams) = [track_en51_empty]
   \<and> find_audio_data no_conversion ps_en6 manifest_empty_streams = Inl ValueError"
  by (simp add: ps_en6_def channels_conv_cases audio_track_matches_def audio_language_def
      no_conversion_def manifest_empty_streams_def manifest_ex_def track_en51_empty_def
      track_de20_def find_audio_data_def)

text \<open>
  Claim C10. When the first audio track that has the language and the channel label of the
  player lists no stream, \<^verbatim>\<open>_find_audio_data\<close> ends with the \<^verbatim>\<open>ValueError\<close> of \<^verbatim>\<open>max\<close> on
  an empty sequence: it neither raises its own "unable to find audio data" exception nor
  goes on to a later track, whatever tracks follow.
\<close>

theorem find_audio_empty_streams:
  assumes "channels_conv (currentaudiostream.channels (currentaudiostream player_state)) = Inr chans"
    and "audio_tracks manifest = pre @ t # post"
    and "\<forall>x\<in>set pre. \<not> audio_track_matches (audio_language conv player_state) chans x"
    and "audio_track_matches (audio_language conv player_state) chans t"
    and "audio_track.streams t = []"
  shows "find_audio_data conv player_state manifest = Inl ValueError
         \<and> find_audio_data conv player_state manifest
             \<noteq> Inl (audio_not_found (audio_language conv player_state) chans)"
proof -
  obtain rest where
    "filter (audio_track_matches (audio_language conv player_state) chans) (audio_tracks manifest)
       = t # rest"
    using filter_first [OF assms(2) assms(3) assms(4)] by blast
  then have "find_audio_data conv player_state manifest = Inl ValueError"
    by (simp add: find_audio_data_def assms(1) audio_tracks_loop_filter assms(5))
  then show ?thesis by (simp add: audio_not_found_def)
qed

theorem find_audio_empty_streams_witness:
  "channels_conv (currentaudiostream.channels (currentaudiostream ps_en6)) = Inr ''5.1''
   \<and> audio_tracks manifest_empty_first = [track_de20] @ track_en51_empty # [track_en51]
   \<and> \<not> audio_track_matches (audio_language no_conversion ps_en6) ''5.1'' track_de20
   \<and> audio_track_matches (audio_language no_conversion ps_en6) ''5.1'' track_en51_empty
   \<and> audio_track_matches (audio_language no_conversion ps_en6) ''5.1'' track_en51
   \<and> audio_track.streams track_en51_empty = []
   \<and> find_audio_data no_conversion ps_en6 manifest_empty_first = Inl ValueError"
proof -
  have h1: "channels_conv (currentaudiostream.channels (currentaudiostream ps_en6)) = Inr ''5.1''"
    by (simp add: ps_en6_def channels_conv_cases)
  have h2: "audio_tracks manifest_empty_first = [track_de20] @ track_en51_empty # [track_en51]"
    by (simp add: manifest_empty_first_def)
  have h3: "\<forall>x\<in>set [track_de20].
      \<not> audio_track_matches (audio_language no_conversion ps_en6) ''5.1'' x"
    by (simp add: audio_track_matches_def track_de20_def)
  have h4: "audio_track_matches (audio_language no_conversion ps_en6) ''5.1'' track_en51_empty"
    by (simp add: audio_track_matches_def audio_language_def no_conversion_def ps_en6_def
        track_en51_empty_def)
  have h4': "audio_track_matches (audio_language no_conversion ps_en6) ''5.1'' track_en51"
    by (simp add: audio_track_matches_def audio_language_def no_conversion_def ps_en6_def
        track_en51_def)
  have h5: "audio_track.streams track_en51_empty = []"
    by (simp add: track_en51_empty_def)
  have n: "\<not> audio_track_matches (audio_language no_conversion ps_en6) ''5.1'' track_de20"
    using h3 by simp
  show ?thesis using find_audio_empty_streams [OF h1 h2 h3 h4 h5] h1 h2 n h4 h4' h5 by blast
qed

subsection \<open>Video matcher\<close>

lemma str_in_iff: "str_in a b \<longleftrightarrow> (\<exists>p q. b = p @ a @ q)"
proof (induction b)
  case Nil
  show ?case by auto
next
  case (Cons c cs)
  show ?case
  proof
    assume "str_in a (c # cs)"
    then consider "prefix a (c # cs)" | "str_in a cs" by auto
    then show "\<exists>p q. c # cs = p @ a @ q"
    proof cases
      case 1
      then obtain q where "c # cs = a @ q" by (auto simp: prefix_def)
      then have "c # cs = [] @ a @ q" by simp
      then show ?thesis by blast
    next
      case 2
      then obtain p q where "cs = p @ a @ q" using Cons.IH by blast
      then have "c # cs = (c # p) @ a @ q" by simp
      then show ?thesis by blast
    qed
  next
    assume "\<exists>p q. c # cs = p @ a @ q"
    then obtain p q where pq: "c # cs = p @ a @ q" by blast
    show "str_in a (c # cs)"
    proof (cases p)
      case Nil
      then have "prefix a (c # cs)" using pq by (simp add: prefix_def)
      then show ?thesis by simp
    next
      case (Cons p1 ps)
      then have "cs = ps @ a @ q" using pq by simp
      then have "str_in a cs" using Cons.IH by blast
      then show ?thesis by simp
    qed
  qed
qed

lemma find_append:
  "find P (xs @ ys) = (case find P xs of None \<Rightarrow> find P ys | Some x \<Rightarrow> Some x)"
  by (induction xs) auto

lemma find_first:
  "xs = pre @ x # post \<Longrightarrow> \<forall>y\<in>set pre. \<not> P y \<Longrightarrow> P x \<Longrightarrow> find P xs = Some x"
  by (induction pre arbitrary: xs) auto

lemma find_none: "\<forall>y\<in>set xs. \<not> P y \<Longrightarrow> find P xs = None"
  by (induction xs) auto

lemma video_streams_loop_find:
  "video_streams_loop c w h t ss =
     map_option (\<lambda>(t, s). (video_stream.downloadable_id s, video_track.new_track_id t))
       (find (\<lambda>(t, s). video_matches c w h s) (map (\<lambda>s. (t, s)) ss))"
  by (induction ss) auto

lemma video_tracks_loop_find:
  "video_tracks_loop c w h ts =
     (case find (\<lambda>(t, s). video_matches c w h s)
             (concat (map (\<lambda>t. map (\<lambda>s. (t, s)) (video_track.streams t)) ts)) of
        None \<Rightarrow> Inl (video_not_found c w h)
      | Some (t, s) \<Rightarrow> Inr (video_stream.downloadable_id s, video_track.new_track_id t))"
  by (induction ts) (auto simp: video_streams_loop_find find_append split: option.splits)

lemma find_video_data_find:
  "find_video_data player_state manifest =
     (case find (\<lambda>(t, s). video_matches (codec (currentvideostream player_state))
                   (width (currentvideostream player_state))
                   (height (currentvideostream player_state)) s) (video_pairs manifest) of
        None \<Rightarrow> Inl (video_not_found (codec (currentvideostream player_state))
                   (width (currentvideostream player_state))
                   (height (currentvideostream player_state)))
      | Some (t, s) \<Rightarrow> Inr (video_stream.downloadable_id s, video_track.new_track_id t))"
  by (simp add: find_video_data_def video_pairs_def video_tracks_loop_find)

text \<open>
  Claim C2. Let \<open>cdc\<close>, \<open>w\<close> and \<open>h\<close> be the codec, width and height the player reports.
  A stream matches exactly when its \<^verbatim>\<open>content_profile\<close> holds \<open>cdc\<close> as a contiguous block,
  with any characters before and after, and its \<^verbatim>\<open>res_w\<close> and \<^verbatim>\<open>res_h\<close> equal \<open>w\<close> and
  \<open>h\<close>. \<^verbatim>\<open>_find_video_data\<close> returns the downloadable id of the first matching stream in
  the nested order (tracks outside, streams inside) with the \<^verbatim>\<open>new_track_id\<close> of its track;
  it raises its "unable to find video data" exception when no stream matches; and a
  stream that matches does not match any more once a width or a height, of the stream or
  of the player, is moved by one.
\<close>

theorem find_video_first_match:
  assumes "cdc = codec (currentvideostream player_state)"
    and "w = width (currentvideostream player_state)"
    and "h = height (currentvideostream player_state)"
  shows "(video_pairs manifest = pre @ (t, s) # post
            \<and> (\<forall>p\<in>set pre. \<not> video_matches cdc w h (snd p)) \<and> video_matches cdc w h s \<longrightarrow>
          find_video_data player_state manifest =
            Inr (video_stream.downloadable_id s, video_track.new_track_id t))
       \<and> ((\<forall>p\<in>set (video_pairs manifest). \<not> video_matches cdc w h (snd p)) \<longrightarrow>
          find_video_data player_state manifest = Inl (video_not_found cdc w h))
       \<and> (video_matches cdc w h s' \<longleftrightarrow>
            (\<exists>p q. content_profile s' = p @ cdc @ q) \<and> res_w s' = w \<and> res_h s' = h)
       \<and> (video_matches cdc w h s' \<longrightarrow>
            \<not> video_matches cdc w h (s'\<lparr>res_w := res_w s' + 1\<rparr>)
          \<and> \<not> video_matches cdc w h (s'\<lparr>res_w := res_w s' - 1\<rparr>)
          \<and> \<not> video_matches cdc w h (s'\<lparr>res_h := res_h s' + 1\<rparr>)
          \<and> \<not> video_matches cdc w h (s'\<lparr>res_h := res_h s' - 1\<rparr>)
          \<and> \<not> video_matches cdc (w + 1) h s' \<and> \<not> video_matches cdc (w - 1) h s'
          \<and> \<not> video_matches cdc w (h + 1) s' \<and> \<not> video_matches cdc w (h - 1) s')"
proof -
  let ?P = "\<lambda>(t, s). video_matches cdc w h s"
  have a: "video_pairs manifest = pre @ (t, s) # post
            \<and> (\<forall>p\<in>set pre. \<not> video_matches cdc w h (snd p)) \<and> video_matches cdc w h s \<longrightarrow>
          find_video_data player_state manifest =
            Inr (video_stream.downloadable_id s, video_track.new_track_id t)"
  proof
    assume asm: "video_pairs manifest = pre @ (t, s) # post
            \<and> (\<forall>p\<in>set pre. \<not> video_matches cdc w h (snd p)) \<and> video_matches cdc w h s"
    then have "\<forall>p\<in>set pre. \<not> ?P p" by (simp add: case_prod_beta)
    moreover have "?P (t, s)" using asm by simp
    ultimately have "find ?P (video_pairs manifest) = Some (t, s)"
      using asm find_first [of "video_pairs manifest" pre "(t, s)" post ?P] by blast
    then show "find_video_data player_state manifest =
            Inr (video_stream.downloadable_id s, video_track.new_track_id t)"
      by (simp add: find_video_data_find assms)
  qed
  have b: "(\<forall>p\<in>set (video_pairs manifest). \<not> video_matches cdc w h (snd p)) \<longrightarrow>
          find_video_data player_state manifest = Inl (video_not_found cdc w h)"
  proof
    assume "\<forall>p\<in>set (video_pairs manifest). \<not> video_matches cdc w h (snd p)"
    then have "\<forall>p\<in>set (video_pairs manifest). \<not> ?P p" by (simp add: case_prod_beta)
    then have "find ?P (video_pairs manifest) = None" by (rule find_none)
    then show "find_video_data player_state manifest = Inl (video_not_found cdc w h)"
      by (simp add: find_video_data_find assms)
  qed
  have c: "video_matches cdc w h s' \<longleftrightarrow>
            (\<exists>p q. content_profile s' = p @ cdc @ q) \<and> res_w s' = w \<and> res_h s' = h"
    by (auto simp: video_matches_def str_in_iff)
  have d: "video_matches cdc w h s' \<longrightarrow>
            \<not> video_matches cdc w h (s'\<lparr>res_w := res_w s' + 1\<rparr>)
          \<and> \<not> video_matches cdc w h (s'\<lparr>res_w := res_w s' - 1\<rparr>)
          \<and> \<not> video_matches cdc w h (s'\<lparr>res_h := res_h s' + 1\<rparr>)
          \<and> \<not> video_matches cdc w h (s'\<lparr>res_h := res_h s' - 1\<rparr>)
          \<and> \<not> video_matches cdc (w + 1) h s' \<and> \<not> video_matches cdc (w - 1) h s'
          \<and> \<not> video_matches cdc w (h + 1) s' \<and> \<not> video_matches cdc w (h - 1) s'"
    by (simp add: video_matches_def)
  show ?thesis using a b c d by blast
qed

theorem find_video_first_match_witness:
  "video_pairs manifest_ex = [(track_video, stream_720)] @ (track_video, stream_1080) # [(track_video, stream_1080b)]
   \<and> \<not> video_matches ''h264'' 1920 1080 stream_720
   \<and> video_matches ''h264'' 1920 1080 stream_1080
   \<and> video_matches ''h264'' 1920 1080 stream_1080b
   \<and> find_video_data ps_en6 manifest_ex = Inr (''v1080'', ''V1'')
   \<and> \<not> video_matches ''h264'' 1920 1080 (stream_1080\<lparr>res_w := res_w stream_1080 + 1\<rparr>)
   \<and> \<not> video_matches ''h264'' 1921 1080 stream_720
   \<and> \<not> video_matches ''h264'' 1921 1080 stream_1080
   \<and> \<not> video_matches ''h264'' 1921 1080 stream_1080b
   \<and> find_video_data ps_1921 manifest_ex = Inl (video_not_found ''h264'' 1921 1080)"
proof -
  have c: "''h264'' = codec (currentvideostream ps_en6)" "1920 = width (currentvideostream ps_en6)"
    "1080 = height (currentvideostream ps_en6)"
    by (simp_all add: ps_en6_def)
  have c': "''h264'' = codec (currentvideostream ps_1921)" "1921 = width (currentvideostream ps_1921)"
    "1080 = height (currentvideostream ps_1921)"
    by (simp_all add: ps_1921_def)
  have h1: "video_pairs manifest_ex =
      [(track_video, stream_720)] @ (track_video, stream_1080) # [(track_video, stream_1080b)]"
    by (simp add: video_pairs_def manifest_ex_def track_video_def)
  have h2: "\<forall>p\<in>set [(track_video, stream_720)]. \<not> video_matches ''h264'' 1920 1080 (snd p)"
    by (simp add: video_matches_def stream_720_def)
  have h3: "video_matches ''h264'' 1920 1080 stream_1080"
    by (simp add: video_matches_def stream_1080_def)
  have h3': "video_matches ''h264'' 1920 1080 stream_1080b"
    by (simp add: video_matches_def stream_1080b_def)
  have h4: "\<forall>p\<in>set (video_pairs manifest_ex). \<not> video_matches ''h264'' 1921 1080 (snd p)"
    by (simp add: h1 video_matches_def stream_720_def stream_1080_def stream_1080b_def)
  have ids: "video_stream.downloadable_id stream_1080 = ''v1080''"
    "video_track.new_track_id track_video = ''V1''"
    by (simp_all add: stream_1080_def track_video_def)
  note t1 = find_video_first_match [OF c, of manifest_ex "[(track_video, stream_720)]"
      track_video stream_1080 "[(track_video, stream_1080b)]" stream_1080]
  note t2 = find_video_first_match [OF c', of manifest_ex "[]" track_video stream_1080 "[]"
      stream_1080]
  have r1: "find_video_data ps_en6 manifest_ex = Inr (''v1080'', ''V1'')"
    using t1 h1 h2 h3 ids by metis
  have r2: "\<not> video_matches ''h264'' 1920 1080 (stream_1080\<lparr>res_w := res_w stream_1080 + 1\<rparr>)"
    using t1 h3 by blast
  have r3: "find_video_data ps_1921 manifest_ex = Inl (video_not_found ''h264'' 1921 1080)"
    using t2 h4 by blast
  have n1: "\<not> video_matches ''h264'' 1920 1080 stream_720" using h2 by simp
  have n2: "\<not> video_matches ''h264'' 1921 1080 stream_720"
    "\<not> video_matches ''h264'' 1921 1080 stream_1080"
    "\<not> video_matches ''h264'' 1921 1080 stream_1080b"
    using h4 h1 by simp_all
  show ?thesis using h1 n1 n2 h3 h3' r1 r2 r3 by blast
qed

subsection \<open>Subtitle matcher\<close>

lemma sub_tracks_loop_find:
  "sub_tracks_loop ts =
     (case find isNoneTrack ts of None \<Rightarrow> Inl subtitle_not_found
      | Some t \<Rightarrow> Inr (sub_track.new_track_id t))"
  by (induction ts) auto

lemma sub_tracks_loop_fields:
  "map isNoneTrack ts = map isNoneTrack ts' \<Longrightarrow>
   map sub_track.new_track_id ts = map sub_track.new_track_id ts' \<Longrightarrow>
   sub_tracks_loop ts = sub_tracks_loop ts'"
proof (induction ts arbitrary: ts')
  case Nil
  then show ?case by simp
next
  case (Cons a ts)
  then obtain b ts'' where ts': "ts' = b # ts''" by (cases ts') auto
  show ?case using Cons.prems Cons.IH [of ts''] unfolding ts' by simp
qed

text \<open>
  Claim C8. \<^verbatim>\<open>_find_subtitle_data\<close> returns the \<^verbatim>\<open>new_track_id\<close> of the first track of
  \<^verbatim>\<open>timedtexttracks\<close> whose \<^verbatim>\<open>isNoneTrack\<close> is true, and raises its "unable to find subtitle
  data" exception when there is none. Nothing else of a track is read: two manifests
  whose subtitle tracks agree on \<^verbatim>\<open>isNoneTrack\<close> and \<^verbatim>\<open>new_track_id\<close>, whatever their
  languages, formats or other fields are, get the same answer.
\<close>

theorem find_subtitle_first_none_track:
  fixes manifest :: "'x manifest" and manifest' :: "'y manifest"
  shows "(timedtexttracks manifest = pre @ t # post \<and> (\<forall>x\<in>set pre. \<not> isNoneTrack x)
            \<and> isNoneTrack t \<longrightarrow>
          find_subtitle_data manifest = Inr (sub_track.new_track_id t))
       \<and> ((\<forall>x\<in>set (timedtexttracks manifest). \<not> isNoneTrack x) \<longrightarrow>
          find_subtitle_data manifest = Inl subtitle_not_found)
       \<and> (map isNoneTrack (timedtexttracks manifest) = map isNoneTrack (timedtexttracks manifest')
            \<and> map sub_track.new_track_id (timedtexttracks manifest)
                = map sub_track.new_track_id (timedtexttracks manifest') \<longrightarrow>
          find_subtitle_data manifest = find_subtitle_data manifest')"
proof -
  have a: "timedtexttracks manifest = pre @ t # post \<and> (\<forall>x\<in>set pre. \<not> isNoneTrack x)
            \<and> isNoneTrack t \<longrightarrow>
          find_subtitle_data manifest = Inr (sub_track.new_track_id t)"
    using find_first [of "timedtexttracks manifest" pre t post isNoneTrack]
    by (auto simp: find_subtitle_data_def sub_tracks_loop_find)
  have b: "(\<forall>x\<in>set (timedtexttracks manifest). \<not> isNoneTrack x) \<longrightarrow>
          find_subtitle_data manifest = Inl subtitle_not_found"
    using find_none [of "timedtexttracks manifest" isNoneTrack]
    by (auto simp: find_subtitle_data_def sub_tracks_loop_find)
  have c: "map isNoneTrack (timedtexttracks manifest) = map isNoneTrack (timedtexttracks manifest')
            \<and> map sub_track.new_track_id (timedtexttracks manifest)
                = map sub_track.new_track_id (timedtexttracks manifest') \<longrightarrow>
          find_subtitle_data manifest = find_subtitle_data manifest'"
    using sub_tracks_loop_fields [of "timedtexttracks manifest" "timedtexttracks manifest'"]
    by (auto simp: find_subtitle_data_def)
  show ?thesis using a b c by blast
qed

theorem find_subtitle_first_none_track_witness:
  "timedtexttracks manifest_ex =
     [\<lparr>isNoneTrack = False, sub_track.new_track_id = ''S1''\<rparr>]
     @ \<lparr>isNoneTrack = True, sub_track.new_track_id = ''S0''\<rparr>
     # [\<lparr>isNoneTrack = True, sub_track.new_track_id = ''S9''\<rparr>]
   \<and> find_subtitle_data manifest_ex = Inr ''S0''
   \<and> find_subtitle_data manifest_no_none_track = Inl subtitle_not_found
   \<and> map isNoneTrack (timedtexttracks manifest_text) = map isNoneTrack (timedtexttracks manifest_ex)
   \<and> map sub_track.new_track_id (timedtexttracks manifest_text)
       = map sub_track.new_track_id (timedtexttracks manifest_ex)
   \<and> find_subtitle_data manifest_text = Inr ''S0''"
proof -
  have h1: "timedtexttracks manifest_ex =
     [\<lparr>isNoneTrack = False, sub_track.new_track_id = ''S1''\<rparr>]
     @ \<lparr>isNoneTrack = True, sub_track.new_track_id = ''S0''\<rparr>
     # [\<lparr>isNoneTrack = True, sub_track.new_track_id = ''S9''\<rparr>]"
    by (simp add: manifest_ex_def sub_tracks_ex_def)
  have h2: "\<forall>x\<in>set [\<lparr>isNoneTrack = False, sub_track.new_track_id = ''S1''\<rparr>]. \<not> isNoneTrack x"
    by simp
  have h3: "isNoneTrack \<lparr>isNoneTrack = True, sub_track.new_track_id = ''S0''\<rparr>" by simp
  have h4: "\<forall>x\<in>set (timedtexttracks manifest_no_none_track). \<not> isNoneTrack x"
    by (simp add: manifest_no_none_track_def)
  have h5: "map isNoneTrack (timedtexttracks manifest_text)
              = map isNoneTrack (timedtexttracks manifest_ex)"
    by (simp add: manifest_text_def manifest_ex_def sub_tracks_ex_def)
  have h6: "map sub_track.new_track_id (timedtexttracks manifest_text)
       = map sub_track.new_track_id (timedtexttracks manifest_ex)"
    by (simp add: manifest_text_def manifest_ex_def sub_tracks_ex_def)
  note t1 = find_subtitle_first_none_track [of manifest_ex
      "[\<lparr>isNoneTrack = False, sub_track.new_track_id = ''S1''\<rparr>]"
      "\<lparr>isNoneTrack = True, sub_track.new_track_id = ''S0''\<rparr>"
      "[\<lparr>isNoneTrack = True, sub_track.new_track_id = ''S9''\<rparr>]" manifest_ex]
  note t2 = find_subtitle_first_none_track [of manifest_no_none_track "[]"
      "\<lparr>isNoneTrack = True, sub_track.new_track_id = ''S0''\<rparr>" "[]" manifest_ex]
  note t3 = find_subtitle_first_none_track [of manifest_text "[]"
      "\<lparr>isNoneTrack = True, sub_track.new_track_id = ''S0'', text_language = ''de'',
          rawTrackType = ''closedcaptions''\<rparr>" "[]" manifest_ex]
  have r1: "find_subtitle_data manifest_ex = Inr ''S0''" using t1 h1 h2 h3 by simp
  have r2: "find_subtitle_data manifest_no_none_track = Inl subtitle_not_found"
    using t2 h4 by blast
  have r3: "find_subtitle_data manifest_text = Inr ''S0''" using t3 h5 h6 r1 by simp
  show ?thesis using h1 h5 h6 r1 r2 r3 by blast
qed

subsection \<open>Change detection\<close>

text \<open>
  Claim C7. Without a previous state \<^verbatim>\<open>is_media_changed\<close> is true for every state. With
  a previous state it is true exactly when the audio descriptor or the video descriptor
  differs from the previous one; so it is false for two states whose audio and video
  descriptors are equal, whatever their other fields hold (the subtitle stream, the
  elapsed time).
\<close>

theorem is_media_changed_iff:
  fixes player_state :: "'a player_state_scheme" and previous :: "'b player_state_scheme"
  shows "is_media_changed (None :: 'b player_state_scheme option) player_state
       \<and> (is_media_changed (Some previous) player_state \<longleftrightarrow>
            currentaudiostream player_state \<noteq> currentaudiostream previous
            \<or> currentvideostream player_state \<noteq> currentvideostream previous)
       \<and> (currentaudiostream player_state = currentaudiostream previous
            \<and> currentvideostream player_state = currentvideostream previous \<longrightarrow>
          \<not> is_media_changed (Some previous) player_state)"
  by (auto simp: is_media_changed_def)

theorem is_media_changed_iff_witness:
  "is_media_changed (None :: player_state_subs option) ps_subs_b
   \<and> currentaudiostream ps_subs_b = currentaudiostream ps_subs_a
   \<and> currentvideostream ps_subs_b = currentvideostream ps_subs_a
   \<and> currentsubtitle ps_subs_b \<noteq> currentsubtitle ps_subs_a
   \<and> \<not> is_media_changed (Some ps_subs_a) ps_subs_b
   \<and> \<not> is_media_changed (Some ps_subs_a) ps_subs_a
   \<and> currentvideostream ps_1921 \<noteq> currentvideostream ps_en6
   \<and> is_media_changed (Some ps_en6) ps_1921
   \<and> currentaudiostream ps_en3 \<noteq> currentaudiostream ps_subs_a
   \<and> is_media_changed (Some ps_subs_a) ps_en3"
proof -
  have h1: "currentaudiostream ps_subs_b = currentaudiostream ps_subs_a"
    and h2: "currentvideostream ps_subs_b = currentvideostream ps_subs_a"
    and h3: "currentsubtitle ps_subs_b \<noteq> currentsubtitle ps_subs_a"
    by (simp_all add: ps_subs_b_def ps_subs_a_def)
  have h4: "currentvideostream ps_1921 \<noteq> currentvideostream ps_en6"
    by (simp add: ps_1921_def ps_en6_def)
  have h5: "currentaudiostream ps_en3 \<noteq> currentaudiostream ps_subs_a"
    by (simp add: ps_en3_def ps_en6_def ps_subs_a_def)
  note t1 = is_media_changed_iff [of ps_subs_b ps_subs_a]
  note t2 = is_media_changed_iff [of ps_subs_a ps_subs_a]
  note t3 = is_media_changed_iff [of ps_1921 ps_en6]
  note t4 = is_media_changed_iff [of ps_en3 ps_subs_a]
  show ?thesis using t1 t2 t3 t4 h1 h2 h3 h4 h5 by blast
qed

subsection \<open>Media tag\<close>

text \<open>
  Claim C3. Let \<open>manifest'\<close> be the manifest after the language codes of its audio tracks
  were rewritten, which is what the matchers read. When the three matchers succeed on it,
  \<^verbatim>\<open>build_media_tag\<close> returns play times whose total is \<open>position - 1\<close>, whose audio and
  video lists hold one entry each, with the matched downloadable id and that same
  duration, and whose text list is empty, together with the three track ids. When a
  matcher raises, \<^verbatim>\<open>build_media_tag\<close> ends with the exception of the first matcher that
  raised, and returns nothing. At position 5000 the total and both durations are 4999.
\<close>

theorem build_media_tag_duration:
  assumes "manifest' = manifest\<lparr>audio_tracks := apply_lang_code_changes (audio_tracks manifest)\<rparr>"
  shows "(find_audio_data conv player_state manifest' = Inr (ad, at)
            \<and> find_video_data player_state manifest' = Inr (vd, vt)
            \<and> find_subtitle_data manifest' = Inr tt \<longrightarrow>
          build_media_tag apply_lang_code_changes conv player_state manifest position =
            Inr (\<lparr>total = position - 1,
                  audio = [\<lparr>downloadableId = ad, duration = position - 1\<rparr>],
                  video = [\<lparr>downloadableId = vd, duration = position - 1\<rparr>],
                  text' = []\<rparr>, vt, at, tt))
       \<and> (find_audio_data conv player_state manifest' = Inl e \<longrightarrow>
          build_media_tag apply_lang_code_changes conv player_state manifest position = Inl e)
       \<and> (find_audio_data conv player_state manifest' = Inr a
            \<and> find_video_data player_state manifest' = Inl e \<longrightarrow>
          build_media_tag apply_lang_code_changes conv player_state manifest position = Inl e)
       \<and> (find_audio_data conv player_state manifest' = Inr a
            \<and> find_video_data player_state manifest' = Inr v
            \<and> find_subtitle_data manifest' = Inl e \<longrightarrow>
          build_media_tag apply_lang_code_changes conv player_state manifest position = Inl e)
       \<and> (build_media_tag apply_lang_code_changes conv player_state manifest 5000 = Inr (pt, ids) \<longrightarrow>
          total pt = 4999 \<and> map duration (audio pt) = [4999] \<and> map duration (video pt) = [4999]
          \<and> text' pt = [])"
proof -
  have 1: "find_audio_data conv player_state manifest' = Inr (ad, at)
            \<and> find_video_data player_state manifest' = Inr (vd, vt)
            \<and> find_subtitle_data manifest' = Inr tt \<longrightarrow>
          build_media_tag apply_lang_code_changes conv player_state manifest position =
            Inr (\<lparr>total = position - 1,
                  audio = [\<lparr>downloadableId = ad, duration = position - 1\<rparr>],
                  video = [\<lparr>downloadableId = vd, duration = position - 1\<rparr>],
                  text' = []\<rparr>, vt, at, tt)"
    by (simp add: build_media_tag_def assms Let_def)
  have 2: "find_audio_data conv player_state manifest' = Inl e \<longrightarrow>
          build_media_tag apply_lang_code_changes conv player_state manifest position = Inl e"
    by (simp add: build_media_tag_def assms Let_def)
  have 3: "find_audio_data conv player_state manifest' = Inr a
            \<and> find_video_data player_state manifest' = Inl e \<longrightarrow>
          build_media_tag apply_lang_code_changes conv player_state manifest position = Inl e"
    by (simp add: build_media_tag_def assms Let_def split: prod.splits)
  have 4: "find_audio_data conv player_state manifest' = Inr a
            \<and> find_video_data player_state manifest' = Inr v
            \<and> find_subtitle_data manifest' = Inl e \<longrightarrow>
          build_media_tag apply_lang_code_changes conv player_state manifest position = Inl e"
    by (simp add: build_media_tag_def assms Let_def split: prod.splits)
  have 5: "build_media_tag apply_lang_code_changes conv player_state manifest 5000 = Inr (pt, ids) \<longrightarrow>
          total pt = 4999 \<and> map duration (audio pt) = [4999] \<and> map duration (video pt) = [4999]
          \<and> text' pt = []"
    by (auto simp: build_media_tag_def Let_def split: sum.splits prod.splits)
  show ?thesis using 1 2 3 4 5 by blast
qed

theorem build_media_tag_duration_witness:
  "manifest_ex = manifest_ex\<lparr>audio_tracks := id (audio_tracks manifest_ex)\<rparr>
   \<and> find_audio_data no_conversion ps_en6 manifest_ex = Inr (''B'', ''T1'')
   \<and> find_video_data ps_en6 manifest_ex = Inr (''v1080'', ''V1'')
   \<and> find_subtitle_data manifest_ex = Inr ''S0''
   \<and> build_media_tag id no_conversion ps_en6 manifest_ex 5000 =
       Inr (\<lparr>total = 4999,
             audio = [\<lparr>downloadableId = ''B'', duration = 4999\<rparr>],
             video = [\<lparr>downloadableId = ''v1080'', duration = 4999\<rparr>],
             text' = []\<rparr>, ''V1'', ''T1'', ''S0'')
   \<and> find_audio_data no_conversion ps_en3 manifest_ex = Inl (KeyError 3)
   \<and> build_media_tag id no_conversion ps_en3 manifest_ex 5000 = Inl (KeyError 3)
   \<and> find_audio_data no_conversion ps_1921 manifest_ex = Inr (''B'', ''T1'')
   \<and> find_video_data ps_1921 manifest_ex = Inl (video_not_found ''h264'' 1921 1080)
   \<and> build_media_tag id no_conversion ps_1921 manifest_ex 5000
       = Inl (video_not_found ''h264'' 1921 1080)
   \<and> find_subtitle_data manifest_no_none_track = Inl subtitle_not_found
   \<and> build_media_tag id no_conversion ps_en6 manifest_no_none_track 5000
       = Inl subtitle_not_found"
proof -
  have m: "manifest_ex = manifest_ex\<lparr>audio_tracks := id (audio_tracks manifest_ex)\<rparr>"
    "manifest_no_none_track =
       manifest_no_none_track\<lparr>audio_tracks := id (audio_tracks manifest_no_none_track)\<rparr>"
    by simp_all
  have a3: "find_audio_data no_conversion ps_en3 manifest_ex = Inl (KeyError 3)"
    by code_simp
  have a2: "find_audio_data no_conversion ps_1921 manifest_ex = Inr (''B'', ''T1'')"
    by code_simp
  have v2: "find_video_data ps_1921 manifest_ex = Inl (video_not_found ''h264'' 1921 1080)"
    by code_simp
  have a4: "find_audio_data no_conversion ps_en6 manifest_no_none_track = Inr (''B'', ''T1'')"
    by code_simp
  have v4: "find_video_data ps_en6 manifest_no_none_track = Inr (''v1080'', ''V1'')"
    by code_simp
  have s4: "find_subtitle_data manifest_no_none_track = Inl subtitle_not_found"
    by code_simp
  note t1 = build_media_tag_duration [where manifest' = manifest_ex and manifest = manifest_ex
      and apply_lang_code_changes = id and conv = no_conversion and player_state = ps_en6
      and ad = "''B''" and at = "''T1''" and vd = "''v1080''" and vt = "''V1''" and tt = "''S0''"
      and position = 5000, OF m(1)]
  note t2 = build_media_tag_duration [where manifest' = manifest_ex and manifest = manifest_ex
      and apply_lang_code_changes = id and conv = no_conversion and player_state = ps_en3
      and position = 5000 and e = "KeyError 3", OF m(1)]
  note t3 = build_media_tag_duration [where manifest' = manifest_ex and manifest = manifest_ex
      and apply_lang_code_changes = id and conv = no_conversion and player_state = ps_1921
      and position = 5000 and e = "video_not_found ''h264'' 1921 1080"
      and a = "(''B'', ''T1'')", OF m(1)]
  note t4 = build_media_tag_duration [where manifest' = manifest_no_none_track
      and manifest = manifest_no_none_track
      and apply_lang_code_changes = id and conv = no_conversion and player_state = ps_en6
      and position = 5000 and e = subtitle_not_found
      and a = "(''B'', ''T1'')" and v = "(''v1080'', ''V1'')", OF m(2)]
  have r1: "build_media_tag id no_conversion ps_en6 manifest_ex 5000 =
       Inr (\<lparr>total = 4999,
             audio = [\<lparr>downloadableId = ''B'', duration = 4999\<rparr>],
             video = [\<lparr>downloadableId = ''v1080'', duration = 4999\<rparr>],
             text' = []\<rparr>, ''V1'', ''T1'', ''S0'')"
    using t1 find_audio_data_ex find_video_data_ex find_subtitle_data_ex by simp
  have r2: "build_media_tag id no_conversion ps_en3 manifest_ex 5000 = Inl (KeyError 3)"
    using t2 a3 by blast
  have r3: "build_media_tag id no_conversion ps_1921 manifest_ex 5000
       = Inl (video_not_found ''h264'' 1921 1080)"
    using t3 a2 v2 by blast
  have r4: "build_media_tag id no_conversion ps_en6 manifest_no_none_track 5000
       = Inl subtitle_not_found"
    using t4 a4 v4 s4 by blast
  show ?thesis
    using m(1) find_audio_data_ex find_video_data_ex find_subtitle_data_ex r1 a3 r2 a2 v2 r3 s4 r4
    by blast
qed

subsection \<open>Error dialog decorator\<close>

text \<open>
  Claim C9, as amended. The decorated function returns the result of the function when
  the function returns, and then nothing is shown and the outside is as the function left
  it. When the function raises an instance of \<^verbatim>\<open>Exception\<close> whose \<^verbatim>\<open>str\<close> can be taken,
  one error dialog is shown, with the class name and the text of the exception and the
  mark of an \<^verbatim>\<open>MSLError\<close>, and the same exception is raised again. When the function
  raises an exception that is not an instance of \<^verbatim>\<open>Exception\<close>, the same exception leaves
  the decorated function and no dialog is shown. In every case the decorated function
  ends with an exception exactly when the function does: a failure is never turned into
  a result, nor a result into a failure.
\<close>

theorem display_error_info_reraises:
  "(func args w = (Inr r, w') \<longrightarrow>
        display_error_info get_local_string show_error_info view func args w = (Inr r, w'))
   \<and> (func args w = (Inl exc, w') \<and> is_Exception view exc
          \<and> exc_str view exc = Inr text_of_exc \<longrightarrow>
        display_error_info get_local_string show_error_info view func args w =
          (Inl exc,
           show_error_info
             \<lparr>title = get_local_string 30028,
              message = class_name view exc @ '': '' @ text_of_exc,
              unknown_error = False, netflix_error = is_MSLError view exc\<rparr> w'))
   \<and> (func args w = (Inl exc, w') \<and> \<not> is_Exception view exc \<longrightarrow>
        display_error_info get_local_string show_error_info view func args w = (Inl exc, w'))
   \<and> isl (fst (display_error_info get_local_string show_error_info view func args w))
       = isl (fst (func args w))"
proof -
  have 1: "func args w = (Inr r, w') \<longrightarrow>
        display_error_info get_local_string show_error_info view func args w = (Inr r, w')"
    by (simp add: display_error_info_def)
  have 2: "func args w = (Inl exc, w') \<and> is_Exception view exc
          \<and> exc_str view exc = Inr text_of_exc \<longrightarrow>
        display_error_info get_local_string show_error_info view func args w =
          (Inl exc,
           show_error_info
             \<lparr>title = get_local_string 30028,
              message = class_name view exc @ '': '' @ text_of_exc,
              unknown_error = False, netflix_error = is_MSLError view exc\<rparr> w')"
    by (simp add: display_error_info_def Let_def)
  have 3: "func args w = (Inl exc, w') \<and> \<not> is_Exception view exc \<longrightarrow>
        display_error_info get_local_string show_error_info view func args w = (Inl exc, w')"
    by (simp add: display_error_info_def)
  have 4: "isl (fst (display_error_info get_local_string show_error_info view func args w))
       = isl (fst (func args w))"
    by (cases "func args w" rule: prod.exhaust; cases "fst (func args w)")
       (auto simp: display_error_info_def Let_def split: sum.splits)
  show ?thesis using 1 2 3 4 by blast
qed

theorem display_error_info_reraises_witness:
  "raises_below_three 7 [] = (Inr 7, [])
   \<and> display_error_info local_string show_dialog exc_ex_view raises_below_three 7 [] = (Inr 7, [])
   \<and> raises_below_three 0 [] = (Inl (Failure ''zero''), [])
   \<and> is_Exception exc_ex_view (Failure ''zero'')
   \<and> exc_str exc_ex_view (Failure ''zero'') = Inr ''zero''
   \<and> display_error_info local_string show_dialog exc_ex_view raises_below_three 0 [] =
       (Inl (Failure ''zero''),
        [\<lparr>title = ''Error details'', message = ''Exception: zero'', unknown_error = False,
          netflix_error = False\<rparr>])
   \<and> raises_below_three 1 [] = (Inl KeyboardInterrupt, [])
   \<and> \<not> is_Exception exc_ex_view KeyboardInterrupt
   \<and> display_error_info local_string show_dialog exc_ex_view raises_below_three 1 [] =
       (Inl KeyboardInterrupt, [])"
proof -
  have h7: "raises_below_three 7 [] = (Inr 7, [])" by (simp add: raises_below_three_def)
  have h0: "raises_below_three 0 [] = (Inl (Failure ''zero''), [])"
    by (simp add: raises_below_three_def)
  have h1: "raises_below_three 1 [] = (Inl KeyboardInterrupt, [])"
    by (simp add: raises_below_three_def)
  have e0: "is_Exception exc_ex_view (Failure ''zero'')"
    "exc_str exc_ex_view (Failure ''zero'') = Inr ''zero''"
    by (simp_all add: exc_ex_view_def)
  have e1: "\<not> is_Exception exc_ex_view KeyboardInterrupt" by (simp add: exc_ex_view_def)
  note t7 = display_error_info_reraises [where func = raises_below_three and args = 7
      and w = "[]" and r = 7 and w' = "[]" and get_local_string = local_string
      and show_error_info = show_dialog and view = exc_ex_view]
  note t0 = display_error_info_reraises [where func = raises_below_three and args = 0
      and w = "[]" and exc = "Failure ''zero''" and w' = "[]" and text_of_exc = "''zero''"
      and get_local_string = local_string and show_error_info = show_dialog
      and view = exc_ex_view]
  note t1 = display_error_info_reraises [where func = raises_below_three and args = 1
      and w = "[]" and exc = KeyboardInterrupt and w' = "[]"
      and get_local_string = local_string and show_error_info = show_dialog
      and view = exc_ex_view]
  have r7: "display_error_info local_string show_dialog exc_ex_view raises_below_three 7 [] = (Inr 7, [])"
    using t7 h7 by blast
  have r0: "display_error_info local_string show_dialog exc_ex_view raises_below_three 0 [] =
       (Inl (Failure ''zero''),
        [\<lparr>title = ''Error details'', message = ''Exception: zero'', unknown_error = False,
          netflix_error = False\<rparr>])"
    using t0 h0 e0 by (simp add: local_string_def show_dialog_def exc_ex_view_def)
  have r1: "display_error_info local_string show_dialog exc_ex_view raises_below_three 1 [] =
       (Inl KeyboardInterrupt, [])"
    using t1 h1 e1 by blast
  show ?thesis using h7 r7 h0 e0 r0 h1 e1 r1 by blast
qed

text \<open>
  The claim as it was written fails: the function raises a \<^verbatim>\<open>KeyboardInterrupt\<close> and the
  decorated function raises it again with no dialog shown; and the function raises an
  exception whose \<^verbatim>\<open>str\<close> raises, and another exception than the one raised leaves the
  decorated function, again with no dialog shown.
\<close>

theorem display_error_info_reraises_counterexample:
  "raises_below_three 1 [] = (Inl KeyboardInterrupt, [])
   \<and> display_error_info local_string show_dialog exc_ex_view raises_below_three 1 [] =
       (Inl KeyboardInterrupt, [])
   \<and> raises_below_three 2 [] = (Inl Unprintable, [])
   \<and> display_error_info local_string show_dialog exc_ex_view raises_below_three 2 [] =
       (Inl (Failure ''no text''), [])"
  by (simp add: raises_below_three_def display_error_info_def exc_ex_view_def)

subsection \<open>Log blob\<close>

lemma replace_char_same: "replace_char c [c] d = d"
  by (induction d) (auto simp: replace_char_def)

lemma replace_char_Nil: "replace_char old new [] = []"
  by (simp add: replace_char_def)

lemma replace_char_Cons:
  "replace_char old new (c # cs) = (if c = old then new else [c]) @ replace_char old new cs"
  by (simp add: replace_char_def)

lemma escape_dump_map_filter:
  "escape_dump d =
     map (\<lambda>c. if c = CHR ''#'' then CHR '' '' else c) (filter (\<lambda>c. c \<noteq> CHR '' '') d)"
  unfolding escape_dump_def replace_char_same
  by (induction d) (auto simp: replace_char_Nil replace_char_Cons)

lemma unescape_escape_dump: "unescape_dump (escape_dump d) = filter (\<lambda>c. c \<noteq> CHR '' '') d"
  unfolding unescape_dump_def escape_dump_def replace_char_same
  by (induction d) (auto simp: replace_char_Nil replace_char_Cons)

lemma space_in_blobs_dump: "CHR '' '' \<in> set (blobs_dump env)"
  by (simp add: blobs_dump_def)

text \<open>
  Claim C4, as amended. Reversing the stages of the transform on the log blob gives the
  serialized payload without its space characters, and never the payload itself, since
  \<^verbatim>\<open>json.dumps\<close> writes a space after every colon and comma and the transform deletes
  every space. The transform is reversible up to the space characters of the payload
  only.
\<close>

theorem logblobs_unescape:
  "unescape_dump (logblobs (generate_logblobs_params env)) =
       filter (\<lambda>c. c \<noteq> CHR '' '') (blobs_dump env)
   \<and> unescape_dump (logblobs (generate_logblobs_params env)) \<noteq> blobs_dump env"
proof -
  have "filter (\<lambda>c. c \<noteq> CHR '' '') (blobs_dump env) \<noteq> blobs_dump env"
  proof
    assume "filter (\<lambda>c. c \<noteq> CHR '' '') (blobs_dump env) = blobs_dump env"
    then have "\<forall>c\<in>set (blobs_dump env). c \<noteq> CHR '' ''" by (simp only: filter_id_conv)
    then show False using space_in_blobs_dump [of env] by blast
  qed
  then show ?thesis
    by (simp add: generate_logblobs_params_def unescape_escape_dump)
qed

theorem logblobs_unescape_witness:
  "unescape_dump (logblobs (generate_logblobs_params env_mac)) =
       filter (\<lambda>c. c \<noteq> CHR '' '') (blobs_dump env_mac)
   \<and> unescape_dump (logblobs (generate_logblobs_params env_mac)) \<noteq> blobs_dump env_mac"
  using logblobs_unescape [of env_mac] by blast

text \<open>
  The claim as it was written fails: two sessions whose dumps differ get the same log blob,
  so no function can give both dumps back, and the reverse of the two stages does not
  give back the dump it started from.
\<close>

theorem logblobs_roundtrip_counterexample:
  "generate_logblobs_params env_mac = generate_logblobs_params env_macosx
   \<and> blobs_dump env_mac \<noteq> blobs_dump env_macosx
   \<and> unescape_dump (logblobs (generate_logblobs_params env_mac)) \<noteq> blobs_dump env_mac"
  by code_simp

subsection \<open>Request parameters\<close>

lemma quote_char_no_sep:
  "\<forall>c::char. CHR ''&'' \<notin> set (quote_char c) \<and> CHR ''='' \<notin> set (quote_char c)"
  by code_simp

lemma quote_shape_all: "\<forall>c::char. quote_shape c"
  by code_simp

lemma replace_char_append:
  "replace_char old new (xs @ ys) = replace_char old new xs @ replace_char old new ys"
  by (simp add: replace_char_def)

lemma unquote_to_bytes_plain:
  "x \<noteq> CHR ''%'' \<Longrightarrow> unquote_to_bytes (x # r) = of_char x # unquote_to_bytes r"
proof (cases r)
  case Nil
  then show ?thesis by simp
next
  case (Cons a r')
  assume "x \<noteq> CHR ''%''"
  then show ?thesis unfolding Cons by (cases r') simp_all
qed

lemma utf8_decode_ascii: "b < 128 \<Longrightarrow> utf8_decode (b # bs) = char_of b # utf8_decode bs"
  by (cases bs) simp_all

lemma unquote_quote_char:
  "utf8_decode (unquote_to_bytes (replace_char CHR ''+'' '' '' (quote_char c) @ r))
     = c # utf8_decode (unquote_to_bytes r)"
proof -
  define q where "q = replace_char CHR ''+'' '' '' (quote_char c)"
  define b1 where "b1 = 16 * hexval (q ! 1) + hexval (q ! 2)"
  define b2 where "b2 = 16 * hexval (q ! 4) + hexval (q ! 5)"
  have "quote_shape c" using quote_shape_all by blast
  then consider
      (one) "q = [q ! 0]" "q ! 0 \<noteq> CHR ''%''" "of_char (q ! 0) < (128::int)"
        "char_of (of_char (q ! 0) :: int) = c"
    | (three) "q = [CHR ''%'', q ! 1, q ! 2]" "0 \<le> hexval (q ! 1)" "0 \<le> hexval (q ! 2)"
        "b1 < 128" "char_of b1 = c"
    | (six) "q = [CHR ''%'', q ! 1, q ! 2, CHR ''%'', q ! 4, q ! 5]"
        "0 \<le> hexval (q ! 1)" "0 \<le> hexval (q ! 2)" "0 \<le> hexval (q ! 4)" "0 \<le> hexval (q ! 5)"
        "128 \<le> b1" "char_of ((b1 - 192) * 64 + (b2 - 128)) = c"
    unfolding quote_shape_def Let_def q_def [symmetric] b1_def [symmetric] b2_def [symmetric]
    by blast
  then have "utf8_decode (unquote_to_bytes (q @ r)) = c # utf8_decode (unquote_to_bytes r)"
  proof cases
    case one
    have "unquote_to_bytes (q @ r) = of_char (q ! 0) # unquote_to_bytes r"
      by (subst one(1)) (simp add: unquote_to_bytes_plain one(2))
    then show ?thesis using one(3) one(4) by (simp add: utf8_decode_ascii)
  next
    case three
    have "unquote_to_bytes (q @ r) = b1 # unquote_to_bytes r"
      using three(2) three(3) by (subst three(1)) (simp add: b1_def)
    then show ?thesis using three(4) three(5) by (simp add: utf8_decode_ascii)
  next
    case six
    have "unquote_to_bytes (q @ r) = b1 # b2 # unquote_to_bytes r"
      using six(2) six(3) six(4) six(5) by (subst six(1)) (simp add: b1_def b2_def)
    then show ?thesis using six(6) six(7) by simp
  qed
  then show ?thesis by (simp add: q_def)
qed

lemma quote_plus_Cons: "quote_plus (c # s) = quote_char c @ quote_plus s"
  by (simp add: quote_plus_def)

lemma unquote_quote_plus: "unquote_plus (quote_plus s) = s"
  unfolding unquote_plus_def
  by (induction s) (simp_all add: quote_plus_def replace_char_def unquote_quote_char [unfolded replace_char_def])

lemma quote_plus_no_sep:
  "CHR ''&'' \<notin> set (quote_plus s)" "CHR ''='' \<notin> set (quote_plus s)"
  using quote_char_no_sep by (auto simp: quote_plus_def)

lemma split_on_not_Nil: "split_on sep s \<noteq> []"
  by (induction s) (auto split: list.splits)

lemma split_on_single: "sep \<notin> set a \<Longrightarrow> split_on sep a = [a]"
  by (induction a) auto

lemma split_on_append: "sep \<notin> set a \<Longrightarrow> split_on sep (a @ sep # b) = a # split_on sep b"
  by (induction a) (auto split: list.splits simp: split_on_not_Nil)

lemma split_on_join:
  "fs \<noteq> [] \<Longrightarrow> \<forall>f\<in>set fs. sep \<notin> set f \<Longrightarrow> split_on sep (join [sep] fs) = fs"
proof (induction fs rule: induct_list012)
  case 1
  then show ?case by simp
next
  case (2 x)
  then show ?case by (simp add: split_on_single)
next
  case (3 x y zs)
  then show ?case by (simp add: split_on_append)
qed


lemma field_decode:
  "unquote_plus (takeWhile (\<lambda>c. c \<noteq> CHR ''='') (quote_plus k @ ''='' @ quote_plus v)) = k"
  "unquote_plus (tl (dropWhile (\<lambda>c. c \<noteq> CHR ''='') (quote_plus k @ ''='' @ quote_plus v))) = v"
proof -
  have n: "\<forall>c\<in>set (quote_plus k). c \<noteq> CHR ''=''" using quote_plus_no_sep(2) [of k] by blast
  have "takeWhile (\<lambda>c. c \<noteq> CHR ''='') (quote_plus k @ ''='' @ quote_plus v) = quote_plus k"
    using n by (simp add: takeWhile_append2)
  then show "unquote_plus (takeWhile (\<lambda>c. c \<noteq> CHR ''='') (quote_plus k @ ''='' @ quote_plus v)) = k"
    by (simp add: unquote_quote_plus)
  have "dropWhile (\<lambda>c. c \<noteq> CHR ''='') (quote_plus k @ ''='' @ quote_plus v) = ''='' @ quote_plus v"
    using n by (simp add: dropWhile_append2)
  then show "unquote_plus (tl (dropWhile (\<lambda>c. c \<noteq> CHR ''='') (quote_plus k @ ''='' @ quote_plus v))) = v"
    by (simp add: unquote_quote_plus)
qed

lemma parse_qsl_urlencode: "parse_qsl (urlencode query) = query"
proof (cases query)
  case Nil
  then show ?thesis by (simp add: parse_qsl_def urlencode_def)
next
  case (Cons kv rest)
  define fs where "fs = map (\<lambda>(k, v). quote_plus k @ ''='' @ quote_plus v) query"
  have ne: "fs \<noteq> []" by (simp add: fs_def Cons)
  have nosep: "\<forall>f\<in>set fs. CHR ''&'' \<notin> set f"
    using quote_plus_no_sep(1) by (auto simp: fs_def)
  have nonempty: "filter (\<lambda>f. f \<noteq> []) fs = fs"
    by (auto simp: fs_def filter_id_conv)
  have "split_on CHR ''&'' (urlencode query) = fs"
    unfolding urlencode_def fs_def [symmetric] using split_on_join [OF ne nosep] by simp
  then have "parse_qsl (urlencode query) =
      map (\<lambda>f. (unquote_plus (takeWhile (\<lambda>c. c \<noteq> CHR ''='') f),
                 unquote_plus (tl (dropWhile (\<lambda>c. c \<noteq> CHR ''='') f)))) fs"
    by (simp add: parse_qsl_def nonempty)
  also have "\<dots> = query"
    unfolding fs_def by (induction query) (auto simp: field_decode simp del: append.simps)
  finally show ?thesis .
qed

lemma lower_char_no_capital:
  "\<forall>c::char. \<not> (65 \<le> (of_char (lower_char c) :: int) \<and> (of_char (lower_char c) :: int) \<le> 90)"
  by code_simp

lemma create_req_params_string:
  "create_req_params table req_name =
     ''?reqAttempt=&reqName='' @ quote_plus req_name
     @ ''&clienttype=akira&uiversion='' @ quote_plus (get_value table ''build_identifier'' [])
     @ ''&browsername=chrome&browserversion=''
     @ quote_plus (lower (get_value table ''browser_info_version'' []))
     @ ''&osname='' @ quote_plus (lower (get_value table ''browser_info_os_name'' []))
     @ ''&osversion='' @ quote_plus (get_value table ''browser_info_os_version'' [])"
proof -
  have k: "quote_plus ''reqAttempt'' = ''reqAttempt''" "quote_plus ''reqName'' = ''reqName''"
    "quote_plus ''clienttype'' = ''clienttype''" "quote_plus ''uiversion'' = ''uiversion''"
    "quote_plus ''browsername'' = ''browsername''" "quote_plus ''browserversion'' = ''browserversion''"
    "quote_plus ''osname'' = ''osname''" "quote_plus ''osversion'' = ''osversion''"
    "quote_plus ''akira'' = ''akira''" "quote_plus ''chrome'' = ''chrome''" "quote_plus [] = []"
    by code_simp+
  show ?thesis
    by (simp add: create_req_params_def req_params_def urlencode_def k)
qed

text \<open>
  Claim C6. For every request name the list of parameters is, in this order,
  \<^verbatim>\<open>reqAttempt\<close> with the empty string, \<^verbatim>\<open>reqName\<close> with the given name,
  \<^verbatim>\<open>clienttype\<close>, \<^verbatim>\<open>uiversion\<close>, \<^verbatim>\<open>browsername\<close>, \<^verbatim>\<open>browserversion\<close>, \<^verbatim>\<open>osname\<close> and
  \<^verbatim>\<open>osversion\<close>, the browser version and the name of the operating system in lower case
  (no letter A to Z is left in a lower-cased string). The string \<^verbatim>\<open>create_req_params\<close>
  returns is a question mark and these eight fields, URL-quoted and joined by \<^verbatim>\<open>&\<close>;
  read back as a query string it gives exactly this list, so for \<^verbatim>\<open>events/engage\<close> the
  second field is \<^verbatim>\<open>reqName\<close> with the value \<^verbatim>\<open>events/engage\<close>.
\<close>

theorem create_req_params_fields:
  "req_params table req_name =
     [(''reqAttempt'', []),
      (''reqName'', req_name),
      (''clienttype'', ''akira''),
      (''uiversion'', get_value table ''build_identifier'' []),
      (''browsername'', ''chrome''),
      (''browserversion'', lower (get_value table ''browser_info_version'' [])),
      (''osname'', lower (get_value table ''browser_info_os_name'' [])),
      (''osversion'', get_value table ''browser_info_os_version'' [])]
   \<and> create_req_params table req_name =
       ''?reqAttempt=&reqName='' @ quote_plus req_name
       @ ''&clienttype=akira&uiversion='' @ quote_plus (get_value table ''build_identifier'' [])
       @ ''&browsername=chrome&browserversion=''
       @ quote_plus (lower (get_value table ''browser_info_version'' []))
       @ ''&osname='' @ quote_plus (lower (get_value table ''browser_info_os_name'' []))
       @ ''&osversion='' @ quote_plus (get_value table ''browser_info_os_version'' [])
   \<and> parse_qsl (tl (create_req_params table req_name)) = req_params table req_name
   \<and> map fst (parse_qsl (tl (create_req_params table req_name))) =
       [''reqAttempt'', ''reqName'', ''clienttype'', ''uiversion'', ''browsername'',
        ''browserversion'', ''osname'', ''osversion'']
   \<and> parse_qsl (tl (create_req_params table ''events/engage'')) ! 1
       = (''reqName'', ''events/engage'')
   \<and> (\<forall>c\<in>set (lower v). \<not> (65 \<le> (of_char c :: int) \<and> (of_char c :: int) \<le> 90))"
proof -
  have p: "parse_qsl (tl (create_req_params table n)) = req_params table n" for n
    by (simp add: create_req_params_def parse_qsl_urlencode)
  have l: "\<forall>c\<in>set (lower v). \<not> (65 \<le> (of_char c :: int) \<and> (of_char c :: int) \<le> 90)"
    using lower_char_no_capital by (auto simp: lower_def)
  have r: "req_params table req_name =
     [(''reqAttempt'', []),
      (''reqName'', req_name),
      (''clienttype'', ''akira''),
      (''uiversion'', get_value table ''build_identifier'' []),
      (''browsername'', ''chrome''),
      (''browserversion'', lower (get_value table ''browser_info_version'' [])),
      (''osname'', lower (get_value table ''browser_info_os_name'' [])),
      (''osversion'', get_value table ''browser_info_os_version'' [])]"
    by (simp add: req_params_def)
  have names: "map fst (parse_qsl (tl (create_req_params table req_name))) =
       [''reqAttempt'', ''reqName'', ''clienttype'', ''uiversion'', ''browsername'',
        ''browserversion'', ''osname'', ''osversion'']"
    by (simp add: p req_params_def)
  have second: "parse_qsl (tl (create_req_params table ''events/engage'')) ! 1
       = (''reqName'', ''events/engage'')"
    by (simp add: p req_params_def)
  show ?thesis
    using r create_req_params_string [of table req_name] p [of req_name] names second l
    by blast
qed

theorem create_req_params_fields_witness:
  "create_req_params (session env_mac) ''events/engage'' =
     ''?reqAttempt=&reqName=events%2Fengage&clienttype=akira&uiversion=&browsername=chrome&browserversion=84.0.4147.136&osname=mac+os+x&osversion=10.15.5''
   \<and> parse_qsl (tl (create_req_params (session env_mac) ''events/engage'')) =
       [(''reqAttempt'', []), (''reqName'', ''events/engage''), (''clienttype'', ''akira''),
        (''uiversion'', []), (''browsername'', ''chrome''), (''browserversion'', ''84.0.4147.136''),
        (''osname'', ''mac os x''), (''osversion'', ''10.15.5'')]
   \<and> lower ''Mac OS X'' = ''mac os x''
   \<and> \<not> (65 \<le> (of_char CHR ''m'' :: int) \<and> (of_char CHR ''m'' :: int) \<le> 90)"
proof -
  have g: "get_value (session env_mac) ''build_identifier'' [] = []"
    "get_value (session env_mac) ''browser_info_version'' [] = ''84.0.4147.136''"
    "get_value (session env_mac) ''browser_info_os_name'' [] = ''Mac OS X''"
    "get_value (session env_mac) ''browser_info_os_version'' [] = ''10.15.5''"
    by (simp_all add: env_mac_def get_value_def)
  have lw: "lower ''84.0.4147.136'' = ''84.0.4147.136''" "lower ''Mac OS X'' = ''mac os x''"
    by code_simp+
  have q: "quote_plus ''events/engage'' = ''events%2Fengage''" "quote_plus [] = []"
    "quote_plus ''84.0.4147.136'' = ''84.0.4147.136''" "quote_plus ''mac os x'' = ''mac+os+x''"
    "quote_plus ''10.15.5'' = ''10.15.5''"
    by code_simp+
  have m: "CHR ''m'' \<in> set (lower ''Mac OS X'')" by (simp add: lw)
  note t = create_req_params_fields [of "session env_mac" "''events/engage''" "''Mac OS X''"]
  note c1 = t [THEN conjunct1]
  note c2 = t [THEN conjunct2, THEN conjunct1]
  note c3 = t [THEN conjunct2, THEN conjunct2, THEN conjunct1]
  have r1: "create_req_params (session env_mac) ''events/engage'' =
     ''?reqAttempt=&reqName=events%2Fengage&clienttype=akira&uiversion=&browsername=chrome&browserversion=84.0.4147.136&osname=mac+os+x&osversion=10.15.5''"
    by (simp add: c2 g lw q)
  have r2: "parse_qsl (tl (create_req_params (session env_mac) ''events/engage'')) =
       [(''reqAttempt'', []), (''reqName'', ''events/engage''), (''clienttype'', ''akira''),
        (''uiversion'', []), (''browsername'', ''chrome''), (''browserversion'', ''84.0.4147.136''),
        (''osname'', ''mac os x''), (''osversion'', ''10.15.5'')]"
    by (simp add: c3 c1 g lw)
  have r3: "\<not> (65 \<le> (of_char CHR ''m'' :: int) \<and> (of_char CHR ''m'' :: int) \<le> 90)"
    using t m by blast
  show ?thesis using r1 r2 r3 lw(2) by blast
qed

end
